theory Spec2Isabelle
  imports Complex_Main
begin

section \<open>JavaScript values used by the scoring core\<close>

subsection \<open>Numbers\<close>

text \<open>
  A JavaScript \<open>number\<close> is an IEEE 754 binary64 value: a finite value, one of the two
  infinities, or NaN. A finite value is given by the real it denotes; the two zeros are
  identified (no operator of the scoring core tells them apart: it never divides by a
  zero). Every arithmetic operation computes the exact result and rounds it to the
  nearest binary64 value, a tie to the even significand, as \<open>toDouble\<close> does.

  The numbers the core receives from its callers (scores, priorities, revenue figures)
  are taken as reals: finite values, as the specification requires of the inputs.
\<close>

datatype double = Finite real | PosInfinity | NegInfinity | NaN

text \<open>The number of binary digits of a natural number.\<close>

fun bitLength :: "nat \<Rightarrow> nat" where
  "bitLength n = (if n = 0 then 0 else Suc (bitLength (n div 2)))"

declare bitLength.simps [simp del]

text \<open>
  The binary exponent of a positive real \<open>x\<close>: the integer \<open>e\<close> with
  \<open>2 ^ e \<le> x\<close> and \<open>x < 2 ^ (e + 1)\<close>.
\<close>

definition binaryExponent :: "real \<Rightarrow> int" where
  "binaryExponent x =
     (if 1 \<le> x then int (bitLength (nat \<lfloor>x\<rfloor>)) - 1
      else - int (bitLength (nat (\<lceil>1 / x\<rceil> - 1))))"

definition pow2 :: "int \<Rightarrow> real" where
  "pow2 e = (if 0 \<le> e then 2 ^ nat e else 1 / 2 ^ nat (- e))"

definition roundHalfEven :: "real \<Rightarrow> int" where
  "roundHalfEven x =
     (let f = \<lfloor>x\<rfloor>;
          d = x - of_int f
      in if d < 1 / 2 then f
         else if 1 / 2 < d then f + 1
         else if even f then f else f + 1)"

text \<open>
  Rounding a real to binary64: 53 significant bits, the exponent at least -1022 (below it
  the values are subnormal, spaced \<open>2 ^ -1074\<close> apart), overflow to an infinity when
  the rounded magnitude reaches \<open>2 ^ 1024\<close>.
\<close>

definition toDouble :: "real \<Rightarrow> double" where
  "toDouble x =
     (if x = 0 then Finite 0
      else
        (let e = max (binaryExponent \<bar>x\<bar>) (- 1022);
             ulp = pow2 (e - 52);
             y = of_int (roundHalfEven (x / ulp)) * ulp
         in if 2 ^ 1024 \<le> \<bar>y\<bar> then (if 0 < x then PosInfinity else NegInfinity)
            else Finite y))"

text \<open>The operators \<open>*\<close>, \<open>+\<close>, \<open>-\<close> and \<open>/\<close> on numbers.\<close>

fun js_mul :: "double \<Rightarrow> double \<Rightarrow> double" where
  "js_mul (Finite a) (Finite b) = toDouble (a * b)"
| "js_mul NaN b = NaN"
| "js_mul a NaN = NaN"
| "js_mul (Finite a) PosInfinity =
     (if a = 0 then NaN else if 0 < a then PosInfinity else NegInfinity)"
| "js_mul (Finite a) NegInfinity =
     (if a = 0 then NaN else if 0 < a then NegInfinity else PosInfinity)"
| "js_mul PosInfinity (Finite b) =
     (if b = 0 then NaN else if 0 < b then PosInfinity else NegInfinity)"
| "js_mul NegInfinity (Finite b) =
     (if b = 0 then NaN else if 0 < b then NegInfinity else PosInfinity)"
| "js_mul PosInfinity PosInfinity = PosInfinity"
| "js_mul PosInfinity NegInfinity = NegInfinity"
| "js_mul NegInfinity PosInfinity = NegInfinity"
| "js_mul NegInfinity NegInfinity = PosInfinity"

fun js_add :: "double \<Rightarrow> double \<Rightarrow> double" where
  "js_add (Finite a) (Finite b) = toDouble (a + b)"
| "js_add NaN b = NaN"
| "js_add a NaN = NaN"
| "js_add PosInfinity NegInfinity = NaN"
| "js_add NegInfinity PosInfinity = NaN"
| "js_add PosInfinity b = PosInfinity"
| "js_add NegInfinity b = NegInfinity"
| "js_add (Finite a) PosInfinity = PosInfinity"
| "js_add (Finite a) NegInfinity = NegInfinity"

fun js_neg :: "double \<Rightarrow> double" where
  "js_neg (Finite a) = Finite (- a)"
| "js_neg PosInfinity = NegInfinity"
| "js_neg NegInfinity = PosInfinity"
| "js_neg NaN = NaN"

definition js_sub :: "double \<Rightarrow> double \<Rightarrow> double" where
  "js_sub a b = js_add a (js_neg b)"

text \<open>Division; a zero divisor is read as the positive zero.\<close>

fun js_div :: "double \<Rightarrow> double \<Rightarrow> double" where
  "js_div (Finite a) (Finite b) =
     (if b = 0 then (if a = 0 then NaN else if 0 < a then PosInfinity else NegInfinity)
      else toDouble (a / b))"
| "js_div NaN b = NaN"
| "js_div a NaN = NaN"
| "js_div (Finite a) PosInfinity = Finite 0"
| "js_div (Finite a) NegInfinity = Finite 0"
| "js_div PosInfinity (Finite b) = (if 0 \<le> b then PosInfinity else NegInfinity)"
| "js_div NegInfinity (Finite b) = (if 0 \<le> b then NegInfinity else PosInfinity)"
| "js_div PosInfinity PosInfinity = NaN"
| "js_div PosInfinity NegInfinity = NaN"
| "js_div NegInfinity PosInfinity = NaN"
| "js_div NegInfinity NegInfinity = NaN"

text \<open>The comparison \<open><\<close>: false as soon as an operand is NaN.\<close>

fun js_lt :: "double \<Rightarrow> double \<Rightarrow> bool" where
  "js_lt (Finite a) (Finite b) = (a < b)"
| "js_lt NaN b = False"
| "js_lt a NaN = False"
| "js_lt PosInfinity b = False"
| "js_lt a NegInfinity = False"
| "js_lt NegInfinity (Finite b) = True"
| "js_lt NegInfinity PosInfinity = True"
| "js_lt (Finite a) PosInfinity = True"

definition js_gt :: "double \<Rightarrow> double \<Rightarrow> bool" where
  "js_gt a b = js_lt b a"

text \<open>The operator \<open>!==\<close> on numbers: NaN differs from every number, itself included.\<close>

definition js_strict_neq :: "double \<Rightarrow> double \<Rightarrow> bool" where
  "js_strict_neq a b = (a = NaN \<or> b = NaN \<or> a \<noteq> b)"

text \<open>
  \<open>Math.max\<close> and \<open>Math.min\<close> of two numbers give NaN when an operand is NaN.
\<close>

definition Math_max :: "double \<Rightarrow> double \<Rightarrow> double" where
  "Math_max a b = (if a = NaN \<or> b = NaN then NaN else if js_lt a b then b else a)"

definition Math_min :: "double \<Rightarrow> double \<Rightarrow> double" where
  "Math_min a b = (if a = NaN \<or> b = NaN then NaN else if js_lt b a then b else a)"

text \<open>
  \<open>Math.round\<close> gives the nearest integer, a tie towards plus infinity; \<open>Math.ceil\<close>
  the least integer not below. Both leave the infinities and NaN as they are.
\<close>

fun Math_round :: "double \<Rightarrow> double" where
  "Math_round (Finite x) = Finite (of_int \<lfloor>x + 1 / 2\<rfloor>)"
| "Math_round d = d"

fun Math_ceil :: "double \<Rightarrow> double" where
  "Math_ceil (Finite x) = Finite (of_int \<lceil>x\<rceil>)"
| "Math_ceil d = d"

text \<open>
  A property that may be \<open>undefined\<close> is an \<open>option\<close>; \<open>ToNumber\<close> turns
  \<open>undefined\<close> into NaN when it meets an arithmetic operator.
\<close>

fun ToNumber :: "real option \<Rightarrow> double" where
  "ToNumber None = NaN"
| "ToNumber (Some x) = Finite x"

subsection \<open>Strings\<close>

text \<open>A JavaScript string is the list of its UTF-16 code units.\<close>

type_synonym jsstring = "nat list"

definition ascii :: "string \<Rightarrow> jsstring" where
  "ascii s = map of_char s"

text \<open>\<open>String.prototype.includes\<close>: the pattern occurs as a contiguous run of code units.\<close>

fun startsWith :: "jsstring \<Rightarrow> jsstring \<Rightarrow> bool" where
  "startsWith s [] = True"
| "startsWith [] (p # ps) = False"
| "startsWith (c # cs) (p # ps) = (c = p \<and> startsWith cs ps)"

fun String_includes :: "jsstring \<Rightarrow> jsstring \<Rightarrow> bool" where
  "String_includes [] pat = (pat = [])"
| "String_includes (c # cs) pat = (startsWith (c # cs) pat \<or> String_includes cs pat)"

datatype js_error = TypeError

section \<open>config/constants.ts\<close>

text \<open>
  One value per category: the shape of \<open>ScoringWeights\<close>, of an industry's
  \<open>weightMultipliers\<close> and of the score objects of the engine.
\<close>

record 'n ScoringWeights =
  performance :: 'n
  mobile :: 'n
  seo :: 'n
  conversion :: 'n
  content :: 'n

text \<open>
  An \<open>IndustryConfig\<close>. Its \<open>keywords\<close> and \<open>criticalElements\<close> are not read by
  the scoring code and are left out. A decimal literal of the source denotes the binary64
  value nearest to it.
\<close>

record IndustryConfig =
  weightMultipliers :: "double ScoringWeights"
  averageMonthlyRevenue :: real

definition INDUSTRY_CONFIGS_default :: IndustryConfig where
  "INDUSTRY_CONFIGS_default =
     \<lparr>weightMultipliers =
        \<lparr>performance = toDouble 1.0, mobile = toDouble 1.0, seo = toDouble 1.0,
         conversion = toDouble 1.0, content = toDouble 1.0\<rparr>,
      averageMonthlyRevenue = 2500000\<rparr>"

text \<open>The own properties of the object literal \<open>INDUSTRY_CONFIGS\<close>, in source order.\<close>

definition INDUSTRY_CONFIGS :: "(jsstring \<times> IndustryConfig) list" where
  "INDUSTRY_CONFIGS =
     [(ascii ''restaurant'',
        \<lparr>weightMultipliers =
           \<lparr>performance = toDouble 1.0, mobile = toDouble 1.2, seo = toDouble 0.9,
            conversion = toDouble 1.3, content = toDouble 0.8\<rparr>,
         averageMonthlyRevenue = 3000000\<rparr>),
      (ascii ''beauty'',
        \<lparr>weightMultipliers =
           \<lparr>performance = toDouble 0.9, mobile = toDouble 1.3, seo = toDouble 1.0,
            conversion = toDouble 1.2, content = toDouble 1.0\<rparr>,
         averageMonthlyRevenue = 2000000\<rparr>),
      (ascii ''clinic'',
        \<lparr>weightMultipliers =
           \<lparr>performance = toDouble 1.1, mobile = toDouble 1.1, seo = toDouble 1.2,
            conversion = toDouble 1.0, content = toDouble 1.1\<rparr>,
         averageMonthlyRevenue = 5000000\<rparr>),
      (ascii ''retail'',
        \<lparr>weightMultipliers =
           \<lparr>performance = toDouble 1.2, mobile = toDouble 1.0, seo = toDouble 1.1,
            conversion = toDouble 0.9, content = toDouble 1.0\<rparr>,
         averageMonthlyRevenue = 4000000\<rparr>),
      (ascii ''legal'',
        \<lparr>weightMultipliers =
           \<lparr>performance = toDouble 0.8, mobile = toDouble 0.9, seo = toDouble 1.3,
            conversion = toDouble 1.1, content = toDouble 1.3\<rparr>,
         averageMonthlyRevenue = 3500000\<rparr>),
      (ascii ''default'', INDUSTRY_CONFIGS_default)]"

text \<open>
  \<open>INDUSTRY_CONFIGS\<close> is a plain object, so a property read that finds no own
  property goes on to \<open>Object.prototype\<close>. These are the property names found there;
  each holds a function or an object, which is truthy and is not an \<open>IndustryConfig\<close>.
\<close>

definition Object_prototype_properties :: "jsstring list" where
  "Object_prototype_properties =
     map ascii
       [''constructor'', ''hasOwnProperty'', ''isPrototypeOf'', ''propertyIsEnumerable'',
        ''toLocaleString'', ''toString'', ''valueOf'', ''__proto__'',
        ''__defineGetter__'', ''__defineSetter__'', ''__lookupGetter__'', ''__lookupSetter__'']"

text \<open>What a property read \<open>INDUSTRY_CONFIGS[key]\<close> can give.\<close>

datatype js_value = Config IndustryConfig | PrototypeMember | Undefined

definition INDUSTRY_CONFIGS_get :: "jsstring \<Rightarrow> js_value" where
  "INDUSTRY_CONFIGS_get key =
     (case map_of INDUSTRY_CONFIGS key of
        Some c \<Rightarrow> Config c
      | None \<Rightarrow> if key \<in> set Object_prototype_properties then PrototypeMember else Undefined)"

text \<open>
  The expression
  \<^verbatim>\<open>industry ? INDUSTRY_CONFIGS[industry] || INDUSTRY_CONFIGS.default : INDUSTRY_CONFIGS.default\<close>
  that opens \<open>calculateScores\<close>, \<open>estimateROI\<close> and \<open>calculate\<close>. An absent argument
  and the empty string are falsy; \<open>||\<close> replaces only \<open>undefined\<close>.
\<close>

definition lookupIndustryConfig :: "jsstring option \<Rightarrow> js_value" where
  "lookupIndustryConfig industry =
     (case industry of
        None \<Rightarrow> Config INDUSTRY_CONFIGS_default
      | Some name \<Rightarrow>
          if name = [] then Config INDUSTRY_CONFIGS_default
          else (case INDUSTRY_CONFIGS_get name of
                  Undefined \<Rightarrow> Config INDUSTRY_CONFIGS_default
                | v \<Rightarrow> v))"

text \<open>Property reads on the looked-up value; \<open>None\<close> is \<open>undefined\<close>.\<close>

fun weightMultipliers_of :: "js_value \<Rightarrow> double ScoringWeights option" where
  "weightMultipliers_of (Config c) = Some (weightMultipliers c)"
| "weightMultipliers_of PrototypeMember = None"
| "weightMultipliers_of Undefined = None"

fun averageMonthlyRevenue_of :: "js_value \<Rightarrow> real option" where
  "averageMonthlyRevenue_of (Config c) = Some (averageMonthlyRevenue c)"
| "averageMonthlyRevenue_of PrototypeMember = None"
| "averageMonthlyRevenue_of Undefined = None"

definition DEFAULT_SCORING_WEIGHTS :: "double ScoringWeights" where
  "DEFAULT_SCORING_WEIGHTS =
     \<lparr>performance = toDouble 0.25, mobile = toDouble 0.20, seo = toDouble 0.20,
      conversion = toDouble 0.20, content = toDouble 0.15\<rparr>"

datatype PlanTier = Simple | Standard | Premium

record Plan =
  targetScore :: real
  monthlyPrice :: real

fun PAGEYOU_PLANS :: "PlanTier \<Rightarrow> Plan" where
  "PAGEYOU_PLANS Simple = \<lparr>targetScore = 60, monthlyPrice = 30000\<rparr>"
| "PAGEYOU_PLANS Standard = \<lparr>targetScore = 75, monthlyPrice = 50000\<rparr>"
| "PAGEYOU_PLANS Premium = \<lparr>targetScore = 90, monthlyPrice = 100000\<rparr>"

datatype PriorityTier = High | Medium | Low

record Threshold =
  scoreMax :: real
  monthlyLossMin :: real

fun PRIORITY_THRESHOLDS :: "PriorityTier \<Rightarrow> Threshold" where
  "PRIORITY_THRESHOLDS High = \<lparr>scoreMax = 40, monthlyLossMin = 100000\<rparr>"
| "PRIORITY_THRESHOLDS Medium = \<lparr>scoreMax = 60, monthlyLossMin = 50000\<rparr>"
| "PRIORITY_THRESHOLDS Low = \<lparr>scoreMax = 100, monthlyLossMin = 0\<rparr>"

section \<open>scoring/ScoringEngine.ts\<close>

text \<open>
  \<open>AnalysisResults\<close>: the five \<open>score\<close> fields (\<open>results.performance.score\<close> is
  \<open>performance results\<close>) and the transport flag.
\<close>

record AnalysisResults = "real ScoringWeights" +
  isHttps :: bool

text \<open>The object \<open>calculateScores\<close> returns: the five category scores and \<open>total\<close>.\<close>

record CompositeScore = "double ScoringWeights" +
  total :: double

definition calculateScores :: "AnalysisResults \<Rightarrow> jsstring option \<Rightarrow> js_error + CompositeScore" where
  "calculateScores results industry =
     (let industryConfig = lookupIndustryConfig industry;
          baseScores = \<lparr>performance = Finite (performance results),
                        mobile = Finite (mobile results),
                        seo = Finite (seo results),
                        conversion = Finite (conversion results),
                        content = Finite (content results)\<rparr>;
          baseScores =
            (if \<not> isHttps results
             then baseScores
                    \<lparr>performance :=
                       Math_max (Finite 0) (js_sub (performance baseScores) (Finite 10)),
                     seo := Math_max (Finite 0) (js_sub (seo baseScores) (Finite 15))\<rparr>
             else baseScores);
          defaultWeights = DEFAULT_SCORING_WEIGHTS
      in case weightMultipliers_of industryConfig of
           None \<Rightarrow> Inl TypeError
         | Some m \<Rightarrow>
             (let adjustedScores =
                    \<lparr>performance = Math_round (js_mul (performance baseScores) (performance m)),
                     mobile = Math_round (js_mul (mobile baseScores) (mobile m)),
                     seo = Math_round (js_mul (seo baseScores) (seo m)),
                     conversion = Math_round (js_mul (conversion baseScores) (conversion m)),
                     content = Math_round (js_mul (content baseScores) (content m))\<rparr>;
                  totalScore = Math_round
                    (js_div
                      (js_add (js_add (js_add (js_add
                         (js_mul (performance adjustedScores) (performance defaultWeights))
                         (js_mul (mobile adjustedScores) (mobile defaultWeights)))
                         (js_mul (seo adjustedScores) (seo defaultWeights)))
                         (js_mul (conversion adjustedScores) (conversion defaultWeights)))
                         (js_mul (content adjustedScores) (content defaultWeights)))
                      (js_add (js_add (js_add (js_add
                         (performance defaultWeights)
                         (mobile defaultWeights))
                         (seo defaultWeights))
                         (conversion defaultWeights))
                         (content defaultWeights)))
              in Inr \<lparr>performance = Math_min (Finite 100) (Math_max (Finite 0) (performance adjustedScores)),
                      mobile = Math_min (Finite 100) (Math_max (Finite 0) (mobile adjustedScores)),
                      seo = Math_min (Finite 100) (Math_max (Finite 0) (seo adjustedScores)),
                      conversion = Math_min (Finite 100) (Math_max (Finite 0) (conversion adjustedScores)),
                      content = Math_min (Finite 100) (Math_max (Finite 0) (content adjustedScores)),
                      total = Math_min (Finite 100) (Math_max (Finite 0) totalScore)\<rparr>))"

text \<open>
  \<open>recommendPlan\<close> and \<open>determinePriority\<close> only compare their arguments with
  integer constants, so they are stated on the reals their arguments denote.
\<close>

definition recommendPlan :: "real \<Rightarrow> PlanTier" where
  "recommendPlan totalScore =
     (if totalScore < 40 then Premium
      else if totalScore < 70 then Standard
      else Simple)"

definition determinePriority :: "real \<Rightarrow> real \<Rightarrow> PriorityTier" where
  "determinePriority totalScore estimatedMonthlyLoss =
     (if totalScore \<le> scoreMax (PRIORITY_THRESHOLDS High) \<or>
         estimatedMonthlyLoss \<ge> monthlyLossMin (PRIORITY_THRESHOLDS High)
      then High
      else if totalScore \<le> scoreMax (PRIORITY_THRESHOLDS Medium) \<or>
         estimatedMonthlyLoss \<ge> monthlyLossMin (PRIORITY_THRESHOLDS Medium)
      then Medium
      else Low)"

definition calculateImprovementPotential :: "real \<Rightarrow> PlanTier \<Rightarrow> double" where
  "calculateImprovementPotential currentScore targetPlan =
     (let targetScore = targetScore (PAGEYOU_PLANS targetPlan)
      in Math_max (Finite 0) (js_sub (Finite targetScore) (Finite currentScore)))"

record ROI =
  monthlyInvestment :: double
  estimatedMonthlyReturn :: double
  paybackPeriodMonths :: double
  threeYearROI :: double

text \<open>
  \<open>estimateROI\<close>. The optional \<open>currentMonthlyRevenue\<close> is \<open>None\<close> when absent;
  \<open>currentMonthlyRevenue || industryConfig.averageMonthlyRevenue\<close> takes the right
  operand when the left one is absent or zero, and the right operand is \<open>undefined\<close>
  when the looked-up value has no \<open>averageMonthlyRevenue\<close>.
\<close>

definition estimateROI ::
    "real \<Rightarrow> PlanTier \<Rightarrow> jsstring option \<Rightarrow> real option \<Rightarrow> ROI" where
  "estimateROI currentScore targetPlan industry currentMonthlyRevenue =
     (let plan = PAGEYOU_PLANS targetPlan;
          industryConfig = lookupIndustryConfig industry;
          improvementPotential = calculateImprovementPotential currentScore targetPlan;
          revenueBase =
            (case currentMonthlyRevenue of
               None \<Rightarrow> averageMonthlyRevenue_of industryConfig
             | Some r \<Rightarrow> if r \<noteq> 0 then Some r else averageMonthlyRevenue_of industryConfig);
          revenueImprovementRate = js_mul improvementPotential (toDouble 0.005);
          estimatedMonthlyReturn = js_mul (ToNumber revenueBase) revenueImprovementRate;
          paybackPeriodMonths =
            (if monthlyPrice plan > 0
             then Math_ceil (js_div (Finite (monthlyPrice plan))
                    (Math_max (Finite 1)
                       (js_sub estimatedMonthlyReturn (Finite (monthlyPrice plan)))))
             else Finite 0);
          totalInvestment = js_mul (Finite (monthlyPrice plan)) (Finite 36);
          totalReturn = js_mul estimatedMonthlyReturn (Finite 36);
          threeYearROI =
            (if js_gt totalInvestment (Finite 0)
             then Math_round
                    (js_mul (js_div (js_sub totalReturn totalInvestment) totalInvestment)
                       (Finite 100))
             else Finite 0)
      in \<lparr>monthlyInvestment = Finite (monthlyPrice plan),
          estimatedMonthlyReturn = estimatedMonthlyReturn,
          paybackPeriodMonths = paybackPeriodMonths,
          threeYearROI = threeYearROI\<rparr>)"

section \<open>scoring/OpportunityCalculator.ts\<close>

datatype Effort = EffortLow | EffortMedium | EffortHigh

text \<open>
  An \<open>Opportunity\<close>. The types of \<open>priority\<close> and \<open>estimatedRevenueLift\<close> are
  parameters: both are reals in the opportunities the analyzers hand over and binary64
  values once \<open>calculate\<close> has computed them.
\<close>

record ('p, 'l) Opportunity =
  title :: jsstring
  description :: jsstring
  estimatedImprovement :: real
  estimatedRevenueLift :: 'l
  effort :: Effort
  priority :: 'p

text \<open>
  \<open>AnalysisData\<close>: the composite score and, per analyzer result, its \<open>opportunities\<close>
  array (\<open>data.seoResult.opportunities\<close> is \<open>seoResult data\<close>).
\<close>

record AnalysisData =
  scores :: CompositeScore
  performanceResult :: "(real, real) Opportunity list"
  seoResult :: "(real, real) Opportunity list"
  mobileResult :: "(real, real) Opportunity list"
  conversionResult :: "(real, real) Opportunity list"
  contentResult :: "(real, real) Opportunity list"

text \<open>
  \<open>adjustRevenueByIndustry\<close>. The industry average is \<open>None\<close> when the property read
  gave \<open>undefined\<close>; the quotient and with it the result are NaN then.
\<close>

definition adjustRevenueByIndustry :: "real \<Rightarrow> real option \<Rightarrow> double" where
  "adjustRevenueByIndustry baseRevenue industryAverage =
     (let adjustmentFactor = js_div (ToNumber industryAverage) (Finite 2500000)
      in Math_round (js_mul (Finite baseRevenue) adjustmentFactor))"

text \<open>
  The four object literals of \<open>generateSyntheticOpportunities\<close>, as functions of
  \<open>industryConfig.averageMonthlyRevenue\<close>. Titles and descriptions are the source's
  string literals, as UTF-16 code units.
\<close>

definition renewalOpportunity :: "real option \<Rightarrow> (real, double) Opportunity" where
  "renewalOpportunity average =
     \<lparr>title = [0x0057, 0x0065, 0x0062, 0x30B5, 0x30A4, 0x30C8, 0x306E, 0x5168, 0x9762,
               0x30EA, 0x30CB, 0x30E5, 0x30FC, 0x30A2, 0x30EB],
      description = [0x73FE, 0x4EE3, 0x7684, 0x306A, 0x30C7, 0x30B6, 0x30A4, 0x30F3, 0x3068,
               0x6A5F, 0x80FD, 0x3067, 0x7AF6, 0x5408, 0x4ED6, 0x793E, 0x306B, 0x5DEE, 0x3092,
               0x3064, 0x3051, 0x308B],
      estimatedImprovement = 60,
      estimatedRevenueLift = js_mul (ToNumber average) (toDouble 0.1),
      effort = EffortHigh,
      priority = 10\<rparr>"

definition mobileFirstOpportunity :: "real option \<Rightarrow> (real, double) Opportunity" where
  "mobileFirstOpportunity average =
     \<lparr>title = [0x30E2, 0x30D0, 0x30A4, 0x30EB, 0x30D5, 0x30A1, 0x30FC, 0x30B9, 0x30C8,
               0x8A2D, 0x8A08, 0x3078, 0x306E, 0x79FB, 0x884C],
      description = [0x30B9, 0x30DE, 0x30FC, 0x30C8, 0x30D5, 0x30A9, 0x30F3, 0x30E6, 0x30FC,
               0x30B6, 0x30FC, 0x3092, 0x6700, 0x512A, 0x5148, 0x3057, 0x305F, 0x9AD8, 0x901F,
               0x30B5, 0x30A4, 0x30C8, 0x306E, 0x69CB, 0x7BC9],
      estimatedImprovement = 40,
      estimatedRevenueLift = js_mul (ToNumber average) (toDouble 0.08),
      effort = EffortHigh,
      priority = 9\<rparr>"

definition contentMarketingOpportunity :: "real option \<Rightarrow> (real, double) Opportunity" where
  "contentMarketingOpportunity average =
     \<lparr>title = [0x30B3, 0x30F3, 0x30C6, 0x30F3, 0x30C4, 0x30DE, 0x30FC, 0x30B1, 0x30C6,
               0x30A3, 0x30F3, 0x30B0, 0x6226, 0x7565, 0x306E, 0x5C0E, 0x5165],
      description = [0x0053, 0x0045, 0x004F, 0x306B, 0x5F37, 0x3044, 0x6709, 0x76CA, 0x306A,
               0x30B3, 0x30F3, 0x30C6, 0x30F3, 0x30C4, 0x3067, 0x96C6, 0x5BA2, 0x529B, 0x3092,
               0x5F37, 0x5316],
      estimatedImprovement = 35,
      estimatedRevenueLift = js_mul (ToNumber average) (toDouble 0.06),
      effort = EffortMedium,
      priority = 8\<rparr>"

definition conversionOpportunity :: "real option \<Rightarrow> (real, double) Opportunity" where
  "conversionOpportunity average =
     \<lparr>title = [0x30B3, 0x30F3, 0x30D0, 0x30FC, 0x30B8, 0x30E7, 0x30F3, 0x6700, 0x9069,
               0x5316, 0xFF08, 0x0043, 0x0052, 0x004F, 0xFF09, 0x30D7, 0x30ED, 0x30B0, 0x30E9,
               0x30E0],
      description = [0x0041, 0x002F, 0x0042, 0x30C6, 0x30B9, 0x30C8, 0x3068, 0x30E6, 0x30FC,
               0x30B6, 0x30FC, 0x884C, 0x52D5, 0x5206, 0x6790, 0x3067, 0x6210, 0x7D04, 0x7387,
               0x3092, 0x500D, 0x5897],
      estimatedImprovement = 30,
      estimatedRevenueLift = js_mul (ToNumber average) (toDouble 0.12),
      effort = EffortMedium,
      priority = 9\<rparr>"

text \<open>
  \<open>generateSyntheticOpportunities\<close>: four \<open>if\<close> statements in sequence, each pushing
  one object onto the array.
\<close>

definition generateSyntheticOpportunities ::
    "AnalysisData \<Rightarrow> js_value \<Rightarrow> (real, double) Opportunity list" where
  "generateSyntheticOpportunities data industryConfig =
     (let average = averageMonthlyRevenue_of industryConfig;
          opportunities = [];
          opportunities =
            (if js_lt (total (scores data)) (Finite 30)
             then opportunities @ [renewalOpportunity average]
             else opportunities);
          opportunities =
            (if js_lt (performance (scores data)) (Finite 50) \<and>
                js_lt (mobile (scores data)) (Finite 50)
             then opportunities @ [mobileFirstOpportunity average]
             else opportunities);
          opportunities =
            (if js_lt (seo (scores data)) (Finite 50) \<and>
                js_lt (content (scores data)) (Finite 50)
             then opportunities @ [contentMarketingOpportunity average]
             else opportunities);
          opportunities =
            (if js_lt (conversion (scores data)) (Finite 40)
             then opportunities @ [conversionOpportunity average]
             else opportunities)
      in opportunities)"

text \<open>
  A JavaScript \<open>Map\<close> keeps its entries in insertion order; \<open>set\<close> on a key that is
  present replaces the value in place, on a new key it appends the entry.
\<close>

fun Map_set :: "'k \<Rightarrow> 'v \<Rightarrow> ('k \<times> 'v) list \<Rightarrow> ('k \<times> 'v) list" where
  "Map_set k v [] = [(k, v)]"
| "Map_set k v (e # es) = (if fst e = k then (k, v) # es else e # Map_set k v es)"

text \<open>
  The body of the \<open>forEach\<close> of \<open>deduplicateOpportunities\<close>. The built-in
  \<open>String.prototype.toLowerCase\<close> is a parameter. The priorities compared are those of
  the analyzers' and the synthetic opportunities: reals.
\<close>

definition seenStep ::
    "(jsstring \<Rightarrow> jsstring) \<Rightarrow> (jsstring \<times> (real, 'l) Opportunity) list \<Rightarrow>
       (real, 'l) Opportunity \<Rightarrow> (jsstring \<times> (real, 'l) Opportunity) list" where
  "seenStep toLowerCase seen opp =
     (let key = toLowerCase (title opp);
          existing = map_of seen key
      in case existing of
           None \<Rightarrow> Map_set key opp seen
         | Some e \<Rightarrow> if priority opp > priority e then Map_set key opp seen else seen)"

definition deduplicateOpportunities ::
    "(jsstring \<Rightarrow> jsstring) \<Rightarrow> (real, 'l) Opportunity list \<Rightarrow> (real, 'l) Opportunity list" where
  "deduplicateOpportunities toLowerCase opportunities =
     (let seen = foldl (seenStep toLowerCase) [] opportunities
      in map snd seen)"

text \<open>
  The boost that the \<open>map\<close> callback of \<open>recalculatePriorities\<close> accumulates in
  its variable \<open>priorityBoost\<close>; \<open>scoreValues\<close> is the parameter \<open>scores\<close>.
\<close>

definition priorityBoost :: "(real, double) Opportunity \<Rightarrow> CompositeScore \<Rightarrow> double" where
  "priorityBoost opp scoreValues =
     (let boost = Finite 0;
          boost =
            (if String_includes (title opp)
                  [0x30D1, 0x30D5, 0x30A9, 0x30FC, 0x30DE, 0x30F3, 0x30B9] \<and>
                js_lt (performance scoreValues) (Finite 50)
             then js_add boost (Finite 2) else boost);
          boost =
            (if String_includes (title opp) [0x30E2, 0x30D0, 0x30A4, 0x30EB] \<and>
                js_lt (mobile scoreValues) (Finite 50)
             then js_add boost (Finite 2) else boost);
          boost =
            (if String_includes (title opp) (ascii ''SEO'') \<and>
                js_lt (seo scoreValues) (Finite 50)
             then js_add boost (Finite 2) else boost);
          boost =
            (if String_includes (title opp)
                  [0x30B3, 0x30F3, 0x30D0, 0x30FC, 0x30B8, 0x30E7, 0x30F3] \<and>
                js_lt (conversion scoreValues) (Finite 50)
             then js_add boost (Finite 2) else boost);
          boost =
            (if effort opp = EffortLow \<and> estimatedImprovement opp > 20
             then js_add boost (Finite 3) else boost);
          boost =
            (if js_gt (estimatedRevenueLift opp) (Finite 50000)
             then js_add boost (Finite 2) else boost)
      in boost)"

text \<open>
  The object the \<open>map\<close> callback returns: the opportunity with its new priority.
\<close>

definition withBoostedPriority ::
    "CompositeScore \<Rightarrow> (real, double) Opportunity \<Rightarrow> (double, double) Opportunity" where
  "withBoostedPriority scoreValues opp =
     \<lparr>title = title opp,
      description = description opp,
      estimatedImprovement = estimatedImprovement opp,
      estimatedRevenueLift = estimatedRevenueLift opp,
      effort = effort opp,
      priority =
        Math_min (Finite 10) (js_add (Finite (priority opp)) (priorityBoost opp scoreValues))\<rparr>"

text \<open>The comparator handed to \<open>sort\<close>: negative when \<open>a\<close> goes before \<open>b\<close>.\<close>

definition compareOpportunities ::
    "(double, double) Opportunity \<Rightarrow> (double, double) Opportunity \<Rightarrow> double" where
  "compareOpportunities a b =
     (if js_strict_neq (priority b) (priority a) then js_sub (priority b) (priority a)
      else js_sub (estimatedRevenueLift b) (estimatedRevenueLift a))"

text \<open>
  \<open>Array.prototype.sort\<close> with a comparator is a stable sort: elements the comparator
  cannot tell apart keep their order, and a comparator result of NaN counts as zero. An
  insertion sort from the right is one.
\<close>

fun insertSorted :: "('a \<Rightarrow> 'a \<Rightarrow> double) \<Rightarrow> 'a \<Rightarrow> 'a list \<Rightarrow> 'a list" where
  "insertSorted cmp x [] = [x]"
| "insertSorted cmp x (y # ys) =
     (if js_gt (cmp x y) (Finite 0) then y # insertSorted cmp x ys else x # y # ys)"

definition Array_sort :: "('a \<Rightarrow> 'a \<Rightarrow> double) \<Rightarrow> 'a list \<Rightarrow> 'a list" where
  "Array_sort cmp xs = foldr (insertSorted cmp) xs []"

definition recalculatePriorities ::
    "(real, double) Opportunity list \<Rightarrow> CompositeScore \<Rightarrow> (double, double) Opportunity list" where
  "recalculatePriorities opportunities scoreValues =
     Array_sort compareOpportunities (map (withBoostedPriority scoreValues) opportunities)"

text \<open>
  The object the first \<open>map\<close> callback of \<open>calculate\<close> returns: the opportunity with
  its adjusted revenue lift.
\<close>

definition withAdjustedRevenue ::
    "real option \<Rightarrow> (real, real) Opportunity \<Rightarrow> (real, double) Opportunity" where
  "withAdjustedRevenue industryAverage opp =
     \<lparr>title = title opp,
      description = description opp,
      estimatedImprovement = estimatedImprovement opp,
      estimatedRevenueLift =
        adjustRevenueByIndustry (estimatedRevenueLift opp) industryAverage,
      effort = effort opp,
      priority = priority opp\<rparr>"

definition calculate ::
    "(jsstring \<Rightarrow> jsstring) \<Rightarrow> AnalysisData \<Rightarrow> jsstring option \<Rightarrow>
       (double, double) Opportunity list" where
  "calculate toLowerCase data industry =
     (let industryConfig = lookupIndustryConfig industry;
          allOpportunities =
            performanceResult data @ seoResult data @ mobileResult data @
            conversionResult data @ contentResult data;
          adjustedOpportunities =
            map (withAdjustedRevenue (averageMonthlyRevenue_of industryConfig)) allOpportunities;
          syntheticOpportunities = generateSyntheticOpportunities data industryConfig;
          combinedOpportunities = adjustedOpportunities @ syntheticOpportunities;
          uniqueOpportunities = deduplicateOpportunities toLowerCase combinedOpportunities;
          prioritizedOpportunities = recalculatePriorities uniqueOpportunities (scores data)
      in take 10 prioritizedOpportunities)"

section \<open>The specification's reference definitions\<close>

text \<open>
  The definitions of this section follow the words of the specification, not the code;
  the theorems below compare the code with them. The arithmetic of the specification is
  read as the arithmetic of the implementation language: binary64.
\<close>

subsection \<open>Industry resolution\<close>

text \<open>
  The registry's get-or-default accessor: an unknown or absent identifier resolves to the
  \<open>default\<close> profile.
\<close>

definition resolveIndustryProfile :: "jsstring option \<Rightarrow> IndustryConfig" where
  "resolveIndustryProfile industryId =
     (case industryId of
        None \<Rightarrow> INDUSTRY_CONFIGS_default
      | Some name \<Rightarrow>
          (case map_of INDUSTRY_CONFIGS name of
             None \<Rightarrow> INDUSTRY_CONFIGS_default
           | Some profile \<Rightarrow> profile))"

text \<open>
  The identifiers on which the code's property read leaves the registry's own keys: the
  names of the members of \<open>Object.prototype\<close>.
\<close>

definition namesPrototypeMember :: "jsstring option \<Rightarrow> bool" where
  "namesPrototypeMember industry =
     (case industry of
        None \<Rightarrow> False
      | Some name \<Rightarrow> name \<in> set Object_prototype_properties)"

text \<open>The identifiers that are keys of the registry.\<close>

definition ownKey :: "jsstring option \<Rightarrow> bool" where
  "ownKey industry =
     (case industry of
        None \<Rightarrow> False
      | Some name \<Rightarrow> name \<in> set (map fst INDUSTRY_CONFIGS))"

subsection \<open>Score aggregation\<close>

datatype Category = Performance | Mobile | SEO | Conversion | Content

definition categories :: "Category list" where
  "categories = [Performance, Mobile, SEO, Conversion, Content]"

fun categoryValue :: "('n, 'a) ScoringWeights_scheme \<Rightarrow> Category \<Rightarrow> 'n" where
  "categoryValue v Performance = performance v"
| "categoryValue v Mobile = mobile v"
| "categoryValue v SEO = seo v"
| "categoryValue v Conversion = conversion v"
| "categoryValue v Content = content v"

text \<open>
  The transport penalty: Performance loses 10 and SEO loses 15, each floored at 0, when
  the transport is not secure; no other category is touched.
\<close>

fun transportPenalty :: "Category \<Rightarrow> real option" where
  "transportPenalty Performance = Some 10"
| "transportPenalty SEO = Some 15"
| "transportPenalty c = None"

definition penalizedScore :: "AnalysisResults \<Rightarrow> Category \<Rightarrow> double" where
  "penalizedScore categoryResults c =
     (case transportPenalty c of
        None \<Rightarrow> Finite (categoryValue categoryResults c)
      | Some penalty \<Rightarrow>
          if isHttps categoryResults then Finite (categoryValue categoryResults c)
          else Math_max (Finite 0)
                 (js_sub (Finite (categoryValue categoryResults c)) (Finite penalty)))"

text \<open>The adjusted score: the penalized score times the industry multiplier, rounded.\<close>

definition adjustedScore :: "IndustryConfig \<Rightarrow> AnalysisResults \<Rightarrow> Category \<Rightarrow> double" where
  "adjustedScore profile categoryResults c =
     Math_round
       (js_mul (penalizedScore categoryResults c) (categoryValue (weightMultipliers profile) c))"

text \<open>A sum of numbers, taken from left to right.\<close>

fun sumLeft :: "double list \<Rightarrow> double" where
  "sumLeft [] = Finite 0"
| "sumLeft [x] = x"
| "sumLeft (x # y # zs) = sumLeft (js_add x y # zs)"

text \<open>
  The total: the rounded average of the five adjusted scores, weighted by the global
  weights and normalized by their sum.
\<close>

definition weightedTotal :: "IndustryConfig \<Rightarrow> AnalysisResults \<Rightarrow> double" where
  "weightedTotal profile categoryResults =
     Math_round
       (js_div
          (sumLeft (map (\<lambda>c. js_mul (adjustedScore profile categoryResults c)
                                (categoryValue DEFAULT_SCORING_WEIGHTS c)) categories))
          (sumLeft (map (categoryValue DEFAULT_SCORING_WEIGHTS) categories)))"

text \<open>Every output field is clamped into the range from 0 to 100, after weighting.\<close>

definition clamp :: "double \<Rightarrow> double" where
  "clamp x = Math_min (Finite 100) (Math_max (Finite 0) x)"

definition computeScores_spec :: "AnalysisResults \<Rightarrow> jsstring option \<Rightarrow> CompositeScore" where
  "computeScores_spec categoryResults industryId =
     (let profile = resolveIndustryProfile industryId
      in \<lparr>performance = clamp (adjustedScore profile categoryResults Performance),
          mobile = clamp (adjustedScore profile categoryResults Mobile),
          seo = clamp (adjustedScore profile categoryResults SEO),
          conversion = clamp (adjustedScore profile categoryResults Conversion),
          content = clamp (adjustedScore profile categoryResults Content),
          total = clamp (weightedTotal profile categoryResults)\<rparr>)"

text \<open>A number of the documented range: finite, from 0 to 100.\<close>

fun inRange :: "double \<Rightarrow> bool" where
  "inRange (Finite x) = (0 \<le> x \<and> x \<le> 100)"
| "inRange d = False"

subsection \<open>ROI projection\<close>

text \<open>
  The projection's formulas, for a given revenue base; the monthly return is the base
  times the product of the improvement potential and 0.005.
\<close>

definition roiProjection :: "real \<Rightarrow> real \<Rightarrow> PlanTier \<Rightarrow> ROI" where
  "roiProjection revenueBase currentScore plan =
     (let target = (case plan of Simple \<Rightarrow> 60 | Standard \<Rightarrow> 75 | Premium \<Rightarrow> 90);
          improvementPotential = Math_max (Finite 0) (js_sub (Finite target) (Finite currentScore));
          return = js_mul (Finite revenueBase) (js_mul improvementPotential (toDouble 0.005));
          investment = monthlyPrice (PAGEYOU_PLANS plan)
      in \<lparr>monthlyInvestment = Finite investment,
          estimatedMonthlyReturn = return,
          paybackPeriodMonths =
            (if investment > 0
             then Math_ceil (js_div (Finite investment)
                    (Math_max (Finite 1) (js_sub return (Finite investment))))
             else Finite 0),
          threeYearROI =
            (if investment > 0
             then Math_round
                    (js_mul
                       (js_div
                          (js_sub (js_mul return (Finite 36))
                             (js_mul (Finite investment) (Finite 36)))
                          (js_mul (Finite investment) (Finite 36)))
                       (Finite 100))
             else Finite 0)\<rparr>)"

text \<open>
  The revenue base as the specification words it: the supplied revenue, else the
  industry's average.
\<close>

definition revenueBase_claimed :: "jsstring option \<Rightarrow> real option \<Rightarrow> real" where
  "revenueBase_claimed industryId currentMonthlyRevenue =
     (case currentMonthlyRevenue of
        Some revenue \<Rightarrow> revenue
      | None \<Rightarrow> averageMonthlyRevenue (resolveIndustryProfile industryId))"

text \<open>The revenue base with a supplied zero treated as an absent argument.\<close>

definition revenueBase_amended :: "jsstring option \<Rightarrow> real option \<Rightarrow> real" where
  "revenueBase_amended industryId currentMonthlyRevenue =
     (case currentMonthlyRevenue of
        Some revenue \<Rightarrow>
          if revenue = 0 then averageMonthlyRevenue (resolveIndustryProfile industryId)
          else revenue
      | None \<Rightarrow> averageMonthlyRevenue (resolveIndustryProfile industryId))"

text \<open>
  The calls in which a revenue base exists: the industry argument resolves to a profile,
  or a revenue other than zero is supplied.
\<close>

definition revenueBaseKnown :: "jsstring option \<Rightarrow> real option \<Rightarrow> bool" where
  "revenueBaseKnown industryId currentMonthlyRevenue =
     (case currentMonthlyRevenue of
        Some revenue \<Rightarrow> revenue \<noteq> 0 \<or> \<not> namesPrototypeMember industryId
      | None \<Rightarrow> \<not> namesPrototypeMember industryId)"

subsection \<open>Opportunity ranking\<close>

text \<open>The deduplication key of an opportunity: its title, case-folded.\<close>

definition titleKey :: "(jsstring \<Rightarrow> jsstring) \<Rightarrow> ('p, 'l) Opportunity \<Rightarrow> jsstring" where
  "titleKey toLowerCase opp = toLowerCase (title opp)"

text \<open>
  The entry at index \<open>i\<close> is the one to keep for its key: every earlier entry with the
  same key has a strictly lower priority, and no entry with the same key has a higher
  one. So among equal priorities the first in merge order is kept.
\<close>

definition winsKey ::
    "(jsstring \<Rightarrow> jsstring) \<Rightarrow> (real, 'l) Opportunity list \<Rightarrow> nat \<Rightarrow> bool" where
  "winsKey toLowerCase opps i =
     (i < length opps \<and>
      (\<forall>j<length opps.
         titleKey toLowerCase (opps ! j) = titleKey toLowerCase (opps ! i) \<longrightarrow>
           (if j < i then priority (opps ! j) < priority (opps ! i)
            else priority (opps ! j) \<le> priority (opps ! i))))"

text \<open>
  The order of the ranked list: an entry goes before another when its priority is
  higher, or when the priorities are equal and its revenue lift is at least the other's.
  A comparison with NaN is false.
\<close>

fun js_le :: "double \<Rightarrow> double \<Rightarrow> bool" where
  "js_le (Finite a) (Finite b) = (a \<le> b)"
| "js_le NaN b = False"
| "js_le a NaN = False"
| "js_le NegInfinity b = True"
| "js_le a PosInfinity = True"
| "js_le PosInfinity b = False"
| "js_le (Finite a) NegInfinity = False"

definition rankedBefore ::
    "(double, double) Opportunity \<Rightarrow> (double, double) Opportunity \<Rightarrow> bool" where
  "rankedBefore a b =
     (js_lt (priority b) (priority a) \<or>
      (priority a = priority b \<and> priority a \<noteq> NaN \<and>
       js_le (estimatedRevenueLift b) (estimatedRevenueLift a)))"

text \<open>
  The synthetic rules: four independent threshold rules, each adding one opportunity when
  its condition holds.
\<close>

definition syntheticOpportunities_spec ::
    "CompositeScore \<Rightarrow> real option \<Rightarrow> (real, double) Opportunity list" where
  "syntheticOpportunities_spec compositeScore average =
     (if js_lt (total compositeScore) (Finite 30) then [renewalOpportunity average] else []) @
     (if js_lt (performance compositeScore) (Finite 50) \<and>
         js_lt (mobile compositeScore) (Finite 50)
      then [mobileFirstOpportunity average] else []) @
     (if js_lt (seo compositeScore) (Finite 50) \<and> js_lt (content compositeScore) (Finite 50)
      then [contentMarketingOpportunity average] else []) @
     (if js_lt (conversion compositeScore) (Finite 40)
      then [conversionOpportunity average] else [])"

text \<open>
  The number that the literal \<open>1.7e308\<close> denotes: the significand 4258857765019067
  at the binary exponent 972.
\<close>

definition hugeScore :: real where
  "hugeScore = 4258857765019067 * 2 ^ 972"

text \<open>
  The full-site-renewal opportunity as it leaves the ranking, with a given revenue lift
  and final priority: improvement 60, effort High.
\<close>

definition rankedRenewal :: "double \<Rightarrow> double \<Rightarrow> (double, double) Opportunity" where
  "rankedRenewal lift finalPriority =
     \<lparr>title = title (renewalOpportunity None),
      description = description (renewalOpportunity None),
      estimatedImprovement = 60,
      estimatedRevenueLift = lift,
      effort = EffortHigh,
      priority = finalPriority\<rparr>"

subsection \<open>Auxiliary definitions\<close>

text \<open>
  The invariant of the \<open>forEach\<close> of \<open>deduplicateOpportunities\<close>: after the entries
  \<open>xs\<close>, the map holds one entry per key of \<open>xs\<close>, and each is the one to keep.
\<close>

definition seenInvariant ::
    "(jsstring \<Rightarrow> jsstring) \<Rightarrow> (real, 'l) Opportunity list \<Rightarrow>
       (jsstring \<times> (real, 'l) Opportunity) list \<Rightarrow> bool" where
  "seenInvariant lc xs seen =
     (distinct (map fst seen) \<and>
      fst ` set seen = titleKey lc ` set xs \<and>
      (\<forall>k v. map_of seen k = Some v \<longrightarrow>
         titleKey lc v = k \<and> (\<exists>i. winsKey lc xs i \<and> xs ! i = v)))"

text \<open>
  For the examples: \<open>toLowerCase\<close> as it acts on strings whose only cased letters
  are ASCII letters, an opportunity with an ASCII title as an analyzer hands it over, and
  the same opportunity as \<open>calculate\<close> returns it.
\<close>

definition toLowerCase_ascii :: "jsstring \<Rightarrow> jsstring" where
  "toLowerCase_ascii s = map (\<lambda>c. if 65 \<le> c \<and> c \<le> 90 then c + 32 else c) s"

definition sample :: "string \<Rightarrow> real \<Rightarrow> real \<Rightarrow> (real, real) Opportunity" where
  "sample t p lift =
     \<lparr>title = ascii t, description = [], estimatedImprovement = 10,
      estimatedRevenueLift = lift, effort = EffortLow, priority = p\<rparr>"

definition ranked :: "string \<Rightarrow> double \<Rightarrow> double \<Rightarrow> (double, double) Opportunity" where
  "ranked t p lift =
     \<lparr>title = ascii t, description = [], estimatedImprovement = 10,
      estimatedRevenueLift = lift, effort = EffortLow, priority = p\<rparr>"

section \<open>Evaluating binary64 arithmetic\<close>

text \<open>The equations that compute a rounded result on given numbers.\<close>

lemmas double_arith =
  toDouble_def binaryExponent_def bitLength.simps pow2_def roundHalfEven_def Let_def
  js_sub_def js_gt_def js_strict_neq_def Math_max_def Math_min_def

text \<open>
  The literals \<open>0.1\<close> and \<open>0.2\<close> and their sum, which is not the literal \<open>0.3\<close>
  but \<open>0.30000000000000004\<close>.
\<close>

lemma toDouble_examples:
  "toDouble 0.1 = Finite (3602879701896397 / 2 ^ 55)"
  "toDouble 0.2 = Finite (3602879701896397 / 2 ^ 54)"
  "toDouble 0.3 = Finite (5404319552844595 / 2 ^ 54)"
  "js_add (toDouble 0.1) (toDouble 0.2) = Finite (5404319552844596 / 2 ^ 54)"
  by (simp_all add: double_arith)

lemma toDouble_not_NaN: "toDouble x \<noteq> NaN"
  by (simp add: toDouble_def Let_def)

lemma DEFAULT_SCORING_WEIGHTS_values:
  "DEFAULT_SCORING_WEIGHTS =
     \<lparr>performance = Finite (1 / 4),
      mobile = Finite (3602879701896397 / 2 ^ 54),
      seo = Finite (3602879701896397 / 2 ^ 54),
      conversion = Finite (3602879701896397 / 2 ^ 54),
      content = Finite (5404319552844595 / 2 ^ 55)\<rparr>"
  by (simp add: DEFAULT_SCORING_WEIGHTS_def double_arith)

lemma INDUSTRY_CONFIGS_default_values:
  "INDUSTRY_CONFIGS_default =
     \<lparr>weightMultipliers =
        \<lparr>performance = Finite 1, mobile = Finite 1, seo = Finite 1, conversion = Finite 1,
         content = Finite 1\<rparr>,
      averageMonthlyRevenue = 2500000\<rparr>"
  by (simp add: INDUSTRY_CONFIGS_default_def double_arith)

subsection \<open>Overflow\<close>

text \<open>Bounds on the binary exponent, and with them the rounding of a large real.\<close>

lemma bitLength_bounds:
  "0 < n \<Longrightarrow> 2 ^ (bitLength n - 1) \<le> n \<and> n < 2 ^ bitLength n"
proof (induction n rule: bitLength.induct)
  case (1 n)
  from "1.prems" have step: "bitLength n = Suc (bitLength (n div 2))"
    by (subst bitLength.simps) simp
  show ?case
  proof (cases "n div 2 = 0")
    case True
    with "1.prems" have "n = 1"
      by (simp add: div_eq_0_iff) 
    moreover have "bitLength 0 = 0"
      by (subst bitLength.simps) simp
    ultimately show ?thesis
      using step by simp
  next
    case False
    with "1.IH" "1.prems" have IH: "2 ^ (bitLength (n div 2) - 1) \<le> n div 2"
      "n div 2 < 2 ^ bitLength (n div 2)"
      by simp_all
    have pos: "0 < bitLength (n div 2)"
      using False by (subst bitLength.simps) simp
    then have "(2::nat) ^ bitLength (n div 2) = 2 * 2 ^ (bitLength (n div 2) - 1)"
      by (cases "bitLength (n div 2)") simp_all
    with IH show ?thesis
      unfolding step by simp linarith
  qed
qed

lemma binaryExponent_large:
  assumes "2 ^ k \<le> x"
  shows "int k \<le> binaryExponent x" and "pow2 (binaryExponent x) \<le> x"
proof -
  have "(1::real) \<le> 2 ^ k"
    by simp
  with assms have one: "1 \<le> x"
    by linarith
  let ?n = "nat \<lfloor>x\<rfloor>"
  have e: "binaryExponent x = int (bitLength ?n) - 1"
    using one by (simp add: binaryExponent_def)
  have "of_int (2 ^ k) \<le> x"
    using assms by simp
  then have "(2::int) ^ k \<le> \<lfloor>x\<rfloor>"
    by (simp only: le_floor_iff)
  then have "int (2 ^ k) \<le> \<lfloor>x\<rfloor>"
    by simp
  then have lower: "2 ^ k \<le> ?n"
    by linarith
  then have "0 < ?n"
    by (meson less_le_trans zero_less_numeral zero_less_power)
  from bitLength_bounds [OF this] have b: "2 ^ (bitLength ?n - 1) \<le> ?n" "?n < 2 ^ bitLength ?n"
    by simp_all
  from lower b(2) have "(2::nat) ^ k < 2 ^ bitLength ?n"
    by linarith
  then have "k < bitLength ?n"
    by (simp add: power_strict_increasing_iff)
  then show "int k \<le> binaryExponent x"
    using e by simp
  have "0 < bitLength ?n"
    using \<open>k < bitLength ?n\<close> by simp
  then have "pow2 (binaryExponent x) = 2 ^ (bitLength ?n - 1)"
    unfolding e pow2_def by (simp add: nat_diff_distrib')
  also have "\<dots> = real (2 ^ (bitLength ?n - 1))"
    by simp
  also have "\<dots> \<le> real ?n"
    using b(1) by (simp only: of_nat_le_iff)
  also have "\<dots> \<le> x"
    using one by (simp add: of_nat_floor)
  finally show "pow2 (binaryExponent x) \<le> x" .
qed


lemma roundHalfEven_bounds: "\<lfloor>z\<rfloor> \<le> roundHalfEven z" "roundHalfEven z \<le> \<lceil>z\<rceil>"
proof -
  show "\<lfloor>z\<rfloor> \<le> roundHalfEven z"
    by (simp add: roundHalfEven_def Let_def)
  show "roundHalfEven z \<le> \<lceil>z\<rceil>"
  proof (cases "z = of_int \<lfloor>z\<rfloor>")
    case True
    then have "z - of_int \<lfloor>z\<rfloor> < 1 / 2"
      by simp
    then have "roundHalfEven z = \<lfloor>z\<rfloor>"
      by (simp add: roundHalfEven_def Let_def)
    then show ?thesis
      by (simp add: floor_le_ceiling)
  next
    case False
    then have "\<lceil>z\<rceil> = \<lfloor>z\<rfloor> + 1"
      by (simp add: ceiling_altdef)
    then show ?thesis
      by (simp add: roundHalfEven_def Let_def)
  qed
qed

lemma pow2_pos: "0 < pow2 e"
  by (simp add: pow2_def)

lemma pow2_split: "52 \<le> e \<Longrightarrow> pow2 e = 2 ^ 52 * pow2 (e - 52)"
proof -
  assume "52 \<le> e"
  then have "nat e = 52 + nat (e - 52)"
    by simp
  then have "(2::real) ^ nat e = 2 ^ 52 * 2 ^ nat (e - 52)"
    by (simp only: power_add)
  with \<open>52 \<le> e\<close> show ?thesis
    by (simp add: pow2_def)
qed

text \<open>A real of magnitude \<open>2 ^ 1024\<close> or more rounds to an infinity.\<close>

lemma toDouble_overflow:
  assumes big: "2 ^ 1024 \<le> \<bar>x\<bar>"
  shows "toDouble x = (if 0 < x then PosInfinity else NegInfinity)"
proof -
  let ?e = "binaryExponent \<bar>x\<bar>"
  let ?ulp = "pow2 (?e - 52)"
  let ?M = "roundHalfEven (x / ?ulp)"
  from binaryExponent_large [OF big] have e: "1024 \<le> ?e" and le: "pow2 ?e \<le> \<bar>x\<bar>"
    by simp_all
  have "(0::real) < 2 ^ 1024"
    by (rule zero_less_power) simp
  with big have nz: "x \<noteq> 0"
    by auto
  have ulp: "0 < ?ulp"
    by (rule pow2_pos)
  from e have split: "pow2 ?e = 2 ^ 52 * ?ulp"
    by (intro pow2_split) simp
  have M: "2 ^ 52 \<le> \<bar>?M\<bar>"
  proof (cases "0 < x")
    case True
    with le split have "2 ^ 52 * ?ulp \<le> x"
      by simp
    with ulp have "2 ^ 52 \<le> x / ?ulp"
      by (simp add: pos_le_divide_eq)
    then have "of_int (2 ^ 52) \<le> x / ?ulp"
      by simp
    then have "(2::int) ^ 52 \<le> \<lfloor>x / ?ulp\<rfloor>"
      by (simp only: le_floor_iff)
    with roundHalfEven_bounds(1) [of "x / ?ulp"] show ?thesis
      by linarith
  next
    case False
    with le split have "2 ^ 52 * ?ulp \<le> - x"
      by simp
    with ulp have "2 ^ 52 \<le> (- x) / ?ulp"
      by (simp only: pos_le_divide_eq)
    then have "x / ?ulp \<le> of_int (- (2 ^ 52))"
      by simp
    then have "\<lceil>x / ?ulp\<rceil> \<le> - (2 ^ 52)"
      by (simp only: ceiling_le_iff)
    with roundHalfEven_bounds(2) [of "x / ?ulp"] show ?thesis
      by linarith
  qed
  have "(2::real) ^ 1024 \<le> pow2 ?e"
  proof -
    from e have "1024 \<le> nat ?e"
      by simp
    then have "(2::real) ^ 1024 \<le> 2 ^ nat ?e"
      by (intro power_increasing) simp_all
    with e show ?thesis
      by (simp add: pow2_def)
  qed
  also have "\<dots> = 2 ^ 52 * ?ulp"
    by (rule split)
  also have "\<dots> \<le> \<bar>of_int ?M\<bar> * ?ulp"
  proof -
    from M have "of_int (2 ^ 52) \<le> (of_int \<bar>?M\<bar> :: real)"
      by (simp only: of_int_le_iff)
    then have "(2::real) ^ 52 \<le> \<bar>of_int ?M\<bar>"
      by simp
    with ulp show ?thesis
      by (simp add: mult_right_mono)
  qed
  also have "\<dots> = \<bar>of_int ?M * ?ulp\<bar>"
    using ulp by (simp add: abs_mult)
  finally have over: "2 ^ 1024 \<le> \<bar>of_int ?M * ?ulp\<bar>" .
  from e have "max ?e (- 1022) = ?e"
    by simp
  with nz over show ?thesis
    by (simp add: toDouble_def Let_def)
qed

section \<open>Industry lookup\<close>

lemma map_of_INDUSTRY_CONFIGS_Nil: "map_of INDUSTRY_CONFIGS [] = None"
  by (simp add: INDUSTRY_CONFIGS_def ascii_def)

lemma lookupIndustryConfig_resolves:
  assumes "\<not> namesPrototypeMember industry"
  shows "lookupIndustryConfig industry = Config (resolveIndustryProfile industry)"
proof (cases industry)
  case None
  then show ?thesis
    by (simp add: lookupIndustryConfig_def resolveIndustryProfile_def)
next
  case (Some name)
  with assms have notin: "name \<notin> set Object_prototype_properties"
    by (simp add: namesPrototypeMember_def)
  show ?thesis
  proof (cases "name = []")
    case True
    with Some show ?thesis
      by (simp add: lookupIndustryConfig_def resolveIndustryProfile_def map_of_INDUSTRY_CONFIGS_Nil)
  next
    case False
    with Some notin show ?thesis
      by (simp add: lookupIndustryConfig_def resolveIndustryProfile_def INDUSTRY_CONFIGS_get_def
          split: option.split)
  qed
qed

lemma INDUSTRY_CONFIGS_keys:
  "map fst INDUSTRY_CONFIGS =
     map ascii [''restaurant'', ''beauty'', ''clinic'', ''retail'', ''legal'', ''default'']"
  by (simp add: INDUSTRY_CONFIGS_def)

lemma INDUSTRY_CONFIGS_keys_not_inherited:
  "set (map fst INDUSTRY_CONFIGS) \<inter> set Object_prototype_properties = {}"
  unfolding INDUSTRY_CONFIGS_keys Object_prototype_properties_def
  by (simp add: ascii_def)

lemma map_of_INDUSTRY_CONFIGS_prototype:
  assumes "name \<in> set Object_prototype_properties"
  shows "map_of INDUSTRY_CONFIGS name = None"
proof -
  from assms INDUSTRY_CONFIGS_keys_not_inherited
  have "name \<notin> set (map fst INDUSTRY_CONFIGS)"
    by blast
  then show ?thesis
    by (simp add: map_of_eq_None_iff)
qed

lemma Object_prototype_properties_nonempty: "[] \<notin> set Object_prototype_properties"
  by (simp add: Object_prototype_properties_def ascii_def)

lemma lookupIndustryConfig_prototype:
  assumes "namesPrototypeMember industry"
  shows "lookupIndustryConfig industry = PrototypeMember"
proof -
  from assms obtain name where industry: "industry = Some name"
    and name: "name \<in> set Object_prototype_properties"
    by (auto simp add: namesPrototypeMember_def split: option.splits)
  from name Object_prototype_properties_nonempty have "name \<noteq> []"
    by blast
  with industry name map_of_INDUSTRY_CONFIGS_prototype [OF name] show ?thesis
    by (simp add: lookupIndustryConfig_def INDUSTRY_CONFIGS_get_def)
qed

lemma lookupIndustryConfig_default:
  "lookupIndustryConfig (Some (ascii ''default'')) = Config INDUSTRY_CONFIGS_default"
  by (simp add: lookupIndustryConfig_def INDUSTRY_CONFIGS_get_def INDUSTRY_CONFIGS_def ascii_def)

lemma lookupIndustryConfig_constructor:
  "lookupIndustryConfig (Some (ascii ''constructor'')) = PrototypeMember"
  by (rule lookupIndustryConfig_prototype)
     (simp add: namesPrototypeMember_def Object_prototype_properties_def)

lemma not_namesPrototypeMember_None: "\<not> namesPrototypeMember None"
  by (simp add: namesPrototypeMember_def)

lemma not_namesPrototypeMember_legal: "\<not> namesPrototypeMember (Some (ascii ''legal''))"
  by (simp add: namesPrototypeMember_def Object_prototype_properties_def ascii_def)

lemma namesPrototypeMember_toString: "namesPrototypeMember (Some (ascii ''toString''))"
  by (simp add: namesPrototypeMember_def Object_prototype_properties_def)

lemma lookupIndustryConfig_clinic:
  "lookupIndustryConfig (Some (ascii ''clinic'')) =
     Config \<lparr>weightMultipliers =
               \<lparr>performance = toDouble 1.1, mobile = toDouble 1.1, seo = toDouble 1.2,
                conversion = toDouble 1.0, content = toDouble 1.1\<rparr>,
             averageMonthlyRevenue = 5000000\<rparr>"
  by (simp add: lookupIndustryConfig_def INDUSTRY_CONFIGS_get_def INDUSTRY_CONFIGS_def ascii_def)

lemma lookupIndustryConfig_legal:
  "lookupIndustryConfig (Some (ascii ''legal'')) =
     Config \<lparr>weightMultipliers =
               \<lparr>performance = toDouble 0.8, mobile = toDouble 0.9, seo = toDouble 1.3,
                conversion = toDouble 1.1, content = toDouble 1.3\<rparr>,
             averageMonthlyRevenue = 3500000\<rparr>"
  by (simp add: lookupIndustryConfig_def INDUSTRY_CONFIGS_get_def INDUSTRY_CONFIGS_def ascii_def)

section \<open>Score aggregation\<close>

lemma calculateScores_Config:
  assumes "lookupIndustryConfig industry = Config profile"
  shows "calculateScores results industry =
     Inr \<lparr>performance = clamp (adjustedScore profile results Performance),
          mobile = clamp (adjustedScore profile results Mobile),
          seo = clamp (adjustedScore profile results SEO),
          conversion = clamp (adjustedScore profile results Conversion),
          content = clamp (adjustedScore profile results Content),
          total = clamp (weightedTotal profile results)\<rparr>"
  using assms
  by (simp add: calculateScores_def Let_def clamp_def adjustedScore_def weightedTotal_def
      penalizedScore_def categories_def)

lemma calculateScores_default:
  "calculateScores
     \<lparr>performance = 20, mobile = 80, seo = 80, conversion = 80, content = 80,
      isHttps = True\<rparr> (Some (ascii ''default''))
   = Inr \<lparr>performance = Finite 20, mobile = Finite 80, seo = Finite 80,
          conversion = Finite 80, content = Finite 80, total = Finite 65\<rparr>"
  by (simp add: calculateScores_def lookupIndustryConfig_default
      INDUSTRY_CONFIGS_default_values DEFAULT_SCORING_WEIGHTS_values)
     (simp add: double_arith)

text \<open>
  Rounding shows in the total: for the scores 94, 54, 57, 10 and 52 the weighted sum is
  55.49999999999999, not 55.5, and the total is 55.
\<close>

lemma calculateScores_rounding_example:
  "calculateScores
     \<lparr>performance = 94, mobile = 54, seo = 57, conversion = 10, content = 52,
      isHttps = True\<rparr> None
   = Inr \<lparr>performance = Finite 94, mobile = Finite 54, seo = Finite 57,
          conversion = Finite 10, content = Finite 52, total = Finite 55\<rparr>"
  by (simp add: calculateScores_def lookupIndustryConfig_def
      INDUSTRY_CONFIGS_default_values DEFAULT_SCORING_WEIGHTS_values)
     (simp add: double_arith)

text \<open>
  C1 (the code departs from the claim). \<open>calculateScores\<close> computes the reference
  algorithm of the specification (the transport penalty on Performance and SEO before
  weighting, each score times its industry multiplier and rounded, the total as the
  rounded, weight-normalized average of the five adjusted scores, every field clamped)
  for every industry argument but the names of the members of \<open>Object.prototype\<close>: there
  the industry does not resolve to the default profile (the defect recorded under C9) and
  the call throws a TypeError, as for \<open>toString\<close>, where the reference algorithm gives
  the scores of the default profile. For the default industry, secure transport and the
  scores 20, 80, 80, 80, 80 the total is 65 and every category field is its input score;
  for the scores 94, 54, 57, 10, 52 the total is 55.
\<close>

theorem calculateScores_algorithm_or_throw:
  "calculateScores results industry =
     (if namesPrototypeMember industry then Inl TypeError
      else Inr (computeScores_spec results industry))
   \<and> calculateScores
        \<lparr>performance = 20, mobile = 80, seo = 80, conversion = 80, content = 80,
         isHttps = True\<rparr> (Some (ascii ''toString'')) = Inl TypeError
   \<and> computeScores_spec
        \<lparr>performance = 20, mobile = 80, seo = 80, conversion = 80, content = 80,
         isHttps = True\<rparr> (Some (ascii ''toString''))
      = \<lparr>performance = Finite 20, mobile = Finite 80, seo = Finite 80,
         conversion = Finite 80, content = Finite 80, total = Finite 65\<rparr>
   \<and> calculateScores
        \<lparr>performance = 20, mobile = 80, seo = 80, conversion = 80, content = 80,
         isHttps = True\<rparr> None
      = Inr \<lparr>performance = Finite 20, mobile = Finite 80, seo = Finite 80,
             conversion = Finite 80, content = Finite 80, total = Finite 65\<rparr>
   \<and> calculateScores
        \<lparr>performance = 94, mobile = 54, seo = 57, conversion = 10, content = 52,
         isHttps = True\<rparr> None
      = Inr \<lparr>performance = Finite 94, mobile = Finite 54, seo = Finite 57,
             conversion = Finite 10, content = Finite 52, total = Finite 55\<rparr>"
proof -
  let ?example = "\<lparr>performance = 20, mobile = 80, seo = 80, conversion = 80, content = 80,
      isHttps = True\<rparr>"
  let ?scores = "\<lparr>performance = Finite 20, mobile = Finite 80, seo = Finite 80,
      conversion = Finite 80, content = Finite 80, total = Finite 65\<rparr>"
  have throws: "calculateScores r industry = Inl TypeError"
    if "namesPrototypeMember industry" for r industry
    using that by (simp add: calculateScores_def lookupIndustryConfig_prototype)
  have computes: "calculateScores r industry = Inr (computeScores_spec r industry)"
    if "\<not> namesPrototypeMember industry" for r industry
    using that
    by (simp add: calculateScores_Config [OF lookupIndustryConfig_resolves]
        computeScores_spec_def Let_def)
  have example: "calculateScores ?example None = Inr ?scores"
    by (simp add: calculateScores_def lookupIndustryConfig_def
        INDUSTRY_CONFIGS_default_values DEFAULT_SCORING_WEIGHTS_values)
       (simp add: double_arith)
  have "map_of INDUSTRY_CONFIGS (ascii ''toString'') = None"
    by (rule map_of_INDUSTRY_CONFIGS_prototype) (simp add: Object_prototype_properties_def)
  then have "computeScores_spec ?example (Some (ascii ''toString'')) =
      computeScores_spec ?example None"
    by (simp add: computeScores_spec_def resolveIndustryProfile_def)
  also from example computes [OF not_namesPrototypeMember_None, of ?example]
  have "computeScores_spec ?example None = ?scores"
    by simp
  finally have reference: "computeScores_spec ?example (Some (ascii ''toString'')) = ?scores" .
  from throws computes
  have "calculateScores results industry =
     (if namesPrototypeMember industry then Inl TypeError
      else Inr (computeScores_spec results industry))"
    by simp
  with throws [OF namesPrototypeMember_toString, of ?example] reference example
    calculateScores_rounding_example
  show ?thesis
    by (simp only: simp_thms)
qed

lemma scaled_product_bound:
  fixes a b :: real
  assumes ab: "2 ^ l \<le> a * b" and p: "p = q + r" and t: "t = l + r"
  shows "2 ^ t \<le> (a * 2 ^ p) * (b / 2 ^ q)"
proof -
  have "(a * 2 ^ p) * (b / 2 ^ q) = (a * b) * 2 ^ r"
    unfolding p power_add by simp
  moreover have "(2::real) ^ t = 2 ^ l * 2 ^ r"
    unfolding t power_add by simp
  moreover from ab have "2 ^ l * (2::real) ^ r \<le> (a * b) * 2 ^ r"
    by (rule mult_right_mono) simp
  ultimately show ?thesis
    by simp
qed

lemma hugeScore_product: "2 ^ 1024 \<le> hugeScore * (2476979795053773 / 2 ^ 51)"
  unfolding hugeScore_def
  by (rule scaled_product_bound [where l = 103 and r = 921]) simp_all

lemma toDouble_eleven_tenths: "toDouble 1.1 = Finite (2476979795053773 / 2 ^ 51)"
  by (simp add: double_arith)

lemma hugeScore_overflows:
  "js_mul (Finite hugeScore) (toDouble 1.1) = PosInfinity"
  "js_mul (Finite (- hugeScore)) (toDouble 1.1) = NegInfinity"
proof -
  let ?x = "hugeScore * (2476979795053773 / 2 ^ 51)"
  have "(0::real) < 2 ^ 1024"
    by (rule zero_less_power) simp
  from this hugeScore_product have pos: "0 < ?x"
    by (rule less_le_trans)
  with hugeScore_product have abs: "2 ^ 1024 \<le> \<bar>?x\<bar>" "2 ^ 1024 \<le> \<bar>- ?x\<bar>"
    by (simp_all only: abs_of_pos abs_minus)
  note toDouble_overflow [OF abs(1)] toDouble_overflow [OF abs(2)]
  moreover from pos have "\<not> 0 < - ?x"
    by simp
  ultimately have "toDouble ?x = PosInfinity" "toDouble (- ?x) = NegInfinity"
    using pos by (simp_all only: if_True if_False)
  then show "js_mul (Finite hugeScore) (toDouble 1.1) = PosInfinity"
    "js_mul (Finite (- hugeScore)) (toDouble 1.1) = NegInfinity"
    by (simp_all only: toDouble_eleven_tenths js_mul.simps mult_minus_left)
qed

text \<open>
  C2 (the code departs from the claim). The clamp \<open>Math.min(100, Math.max(0, x))\<close>
  lets NaN through. With the clinic profile, a performance score of 1.7e308 and a mobile
  score of -1.7e308, the two products overflow to plus and minus infinity, their weighted
  sum is NaN, and the returned total is NaN, which is not in the range from 0 to 100.
\<close>

theorem calculateScores_total_NaN:
  "calculateScores
     \<lparr>performance = hugeScore, mobile = - hugeScore,
      seo = 80, conversion = 80, content = 80, isHttps = True\<rparr> (Some (ascii ''clinic''))
   = Inr \<lparr>performance = Finite 100, mobile = Finite 0, seo = Finite 96,
          conversion = Finite 80, content = Finite 88, total = NaN\<rparr>"
proof -
  have small: "Math_round (js_mul (Finite 80) (toDouble 1.2)) = Finite 96"
    "Math_round (js_mul (Finite 80) (toDouble 1.0)) = Finite 80"
    "Math_round (js_mul (Finite 80) (toDouble 1.1)) = Finite 88"
    by (simp_all add: double_arith)
  show ?thesis
    by (simp add: calculateScores_def lookupIndustryConfig_clinic hugeScore_overflows small
        DEFAULT_SCORING_WEIGHTS_values)
       (simp add: double_arith)
qed

section \<open>Plan recommendation\<close>

text \<open>
  C7. For every total score, \<open>recommendPlan\<close> gives Premium below 40, Standard from 40
  up to but not including 70, and Simple from 70 on; so 39 gives Premium, 40 and 69 give
  Standard and 70 gives Simple.
\<close>

theorem recommendPlan_tiers:
  "recommendPlan totalScore =
     (if totalScore < 40 then Premium
      else if 40 \<le> totalScore \<and> totalScore < 70 then Standard
      else Simple)
   \<and> (recommendPlan totalScore = Premium) = (totalScore < 40)
   \<and> (recommendPlan totalScore = Standard) = (40 \<le> totalScore \<and> totalScore < 70)
   \<and> (recommendPlan totalScore = Simple) = (totalScore \<ge> 70)
   \<and> recommendPlan 39 = Premium \<and> recommendPlan 40 = Standard
   \<and> recommendPlan 69 = Standard \<and> recommendPlan 70 = Simple"
  by (auto simp add: recommendPlan_def)


section \<open>Priority classification\<close>

text \<open>
  C6. \<open>determinePriority\<close> gives High exactly when the total score is at most 40 or
  the monthly loss is at least 100000; otherwise Medium when the score is at most 60 or
  the loss is at least 50000; otherwise Low. The rules are tried in this order, so a score
  of 100 with a loss of 100000 is High and a score of 41 with no loss is Medium.
\<close>

theorem determinePriority_rules:
  "determinePriority totalScore estimatedMonthlyLoss =
     (if totalScore \<le> 40 \<or> estimatedMonthlyLoss \<ge> 100000 then High
      else if totalScore \<le> 60 \<or> estimatedMonthlyLoss \<ge> 50000 then Medium
      else Low)
   \<and> (determinePriority totalScore estimatedMonthlyLoss = High) =
       (totalScore \<le> 40 \<or> estimatedMonthlyLoss \<ge> 100000)
   \<and> (determinePriority totalScore estimatedMonthlyLoss = Medium) =
       (\<not> (totalScore \<le> 40 \<or> estimatedMonthlyLoss \<ge> 100000) \<and>
        (totalScore \<le> 60 \<or> estimatedMonthlyLoss \<ge> 50000))
   \<and> (determinePriority totalScore estimatedMonthlyLoss = Low) =
       (\<not> (totalScore \<le> 40 \<or> estimatedMonthlyLoss \<ge> 100000) \<and>
        \<not> (totalScore \<le> 60 \<or> estimatedMonthlyLoss \<ge> 50000))
   \<and> determinePriority 100 100000 = High
   \<and> determinePriority 41 0 = Medium"
  by (auto simp add: determinePriority_def)


section \<open>ROI projection\<close>

lemma totalInvestment_values:
  "toDouble 1080000 = Finite 1080000"
  "toDouble 1800000 = Finite 1800000"
  "toDouble 3600000 = Finite 3600000"
  by (simp_all add: double_arith)

lemma revenueBase_resolved:
  assumes "revenueBaseKnown industry currentMonthlyRevenue"
  shows "(case currentMonthlyRevenue of
            None \<Rightarrow> averageMonthlyRevenue_of (lookupIndustryConfig industry)
          | Some r \<Rightarrow>
              if r \<noteq> 0 then Some r
              else averageMonthlyRevenue_of (lookupIndustryConfig industry)) =
         Some (revenueBase_amended industry currentMonthlyRevenue)"
proof (cases "namesPrototypeMember industry")
  case True
  with assms obtain r where "currentMonthlyRevenue = Some r" "r \<noteq> 0"
    by (cases currentMonthlyRevenue) (simp_all add: revenueBaseKnown_def)
  then show ?thesis
    by (simp add: revenueBase_amended_def)
next
  case False
  then show ?thesis
    by (simp add: lookupIndustryConfig_resolves revenueBase_amended_def split: option.split)
qed

lemma estimateROI_resolved:
  assumes "revenueBaseKnown industry currentMonthlyRevenue"
  shows "estimateROI currentScore plan industry currentMonthlyRevenue =
     roiProjection (revenueBase_amended industry currentMonthlyRevenue) currentScore plan"
  by (cases plan)
     (simp_all add: estimateROI_def roiProjection_def calculateImprovementPotential_def
        revenueBase_resolved [OF assms] totalInvestment_values js_gt_def Let_def)

text \<open>
  C8, as the specification words it, fails: with a supplied revenue of 0 the code does
  not take 0 as the revenue base (which would give a monthly return of 0) but the
  industry's average (which gives 312500 for a score of 50, the Standard plan and the
  default industry).
\<close>

theorem estimateROI_zero_revenue_counterexample:
  "estimatedMonthlyReturn (estimateROI 50 Standard None (Some 0)) = Finite 312500 \<and>
   estimatedMonthlyReturn (roiProjection (revenueBase_claimed None (Some 0)) 50 Standard)
     = Finite 0 \<and>
   estimateROI 50 Standard None (Some 0) \<noteq>
     roiProjection (revenueBase_claimed None (Some 0)) 50 Standard"
proof -
  have code: "estimatedMonthlyReturn (estimateROI 50 Standard None (Some 0)) = Finite 312500"
    by (simp add: estimateROI_def lookupIndustryConfig_def INDUSTRY_CONFIGS_default_def
        calculateImprovementPotential_def)
       (simp add: double_arith)
  have spec: "estimatedMonthlyReturn (roiProjection (revenueBase_claimed None (Some 0)) 50 Standard)
      = Finite 0"
    by (simp add: roiProjection_def revenueBase_claimed_def)
       (simp add: double_arith)
  from code spec have "estimateROI 50 Standard None (Some 0) \<noteq>
      roiProjection (revenueBase_claimed None (Some 0)) 50 Standard"
    by auto
  with code spec show ?thesis
    by simp
qed

text \<open>
  C8, amended. All arithmetic is binary64 arithmetic, in the order written. The revenue
  base is the supplied revenue when one is supplied and is not zero, and the resolved
  industry's average monthly revenue otherwise; the monthly return is the base times the
  product of the improvement potential (target score 60, 75 or 90 minus the current
  score, at least 0) and 0.005; the payback period is the ceiling of the price over the
  larger of 1 and return minus price; the three-year ROI is the rounded percentage of the
  36-month return minus the 36-month price over the 36-month price. It holds for every
  call in which a revenue base exists: a revenue other than zero is supplied, or the
  industry argument does not name a member of \<open>Object.prototype\<close>.
\<close>

theorem estimateROI_projection:
  "revenueBaseKnown industry currentMonthlyRevenue \<Longrightarrow>
   estimateROI currentScore plan industry currentMonthlyRevenue =
     roiProjection (revenueBase_amended industry currentMonthlyRevenue) currentScore plan"
  by (rule estimateROI_resolved)

theorem estimateROI_projection_witness:
  "revenueBaseKnown (Some (ascii ''legal'')) None \<and>
   estimateROI 31 Premium (Some (ascii ''legal'')) None =
     \<lparr>monthlyInvestment = Finite 100000, estimatedMonthlyReturn = Finite 1032500,
      paybackPeriodMonths = Finite 1, threeYearROI = Finite 932\<rparr>"
proof -
  have known: "revenueBaseKnown (Some (ascii ''legal'')) None"
    by (simp add: revenueBaseKnown_def not_namesPrototypeMember_legal)
  have base: "revenueBase_amended (Some (ascii ''legal'')) None = 3500000"
  proof -
    from lookupIndustryConfig_resolves [OF not_namesPrototypeMember_legal]
    have "averageMonthlyRevenue (resolveIndustryProfile (Some (ascii ''legal''))) = 3500000"
      by (simp add: lookupIndustryConfig_legal del: ascii_def)
         (metis IndustryConfig.select_convs(2))
    then show ?thesis
      by (simp add: revenueBase_amended_def)
  qed
  have "roiProjection 3500000 31 Premium =
     \<lparr>monthlyInvestment = Finite 100000, estimatedMonthlyReturn = Finite 1032500,
      paybackPeriodMonths = Finite 1, threeYearROI = Finite 932\<rparr>"
    by (simp add: roiProjection_def) (simp add: double_arith)
  with estimateROI_projection [of "Some (ascii ''legal'')" None 31 Premium] known base
  show ?thesis
    by simp
qed

text \<open>
  C10. A supplied revenue of 0 behaves as an absent argument: \<open>estimateROI\<close> gives the
  same result for both, and its monthly return is computed from the average monthly
  revenue read from the looked-up industry, which is that of the resolved profile when
  the industry argument does not name a member of \<open>Object.prototype\<close>.
\<close>

theorem estimateROI_zero_revenue_is_absent:
  "estimateROI currentScore plan industry (Some 0) = estimateROI currentScore plan industry None
   \<and> estimatedMonthlyReturn (estimateROI currentScore plan industry (Some 0)) =
       js_mul (ToNumber (averageMonthlyRevenue_of (lookupIndustryConfig industry)))
         (js_mul (Math_max (Finite 0)
                    (js_sub (Finite (targetScore (PAGEYOU_PLANS plan))) (Finite currentScore)))
            (toDouble 0.005))
   \<and> (\<not> namesPrototypeMember industry \<longrightarrow>
        estimatedMonthlyReturn (estimateROI currentScore plan industry (Some 0)) =
          js_mul (Finite (averageMonthlyRevenue (resolveIndustryProfile industry)))
            (js_mul (Math_max (Finite 0)
                       (js_sub (Finite (targetScore (PAGEYOU_PLANS plan))) (Finite currentScore)))
               (toDouble 0.005)))"
proof -
  have same: "estimateROI currentScore plan industry (Some 0) =
      estimateROI currentScore plan industry None"
    by (simp add: estimateROI_def)
  have return: "estimatedMonthlyReturn (estimateROI currentScore plan industry (Some 0)) =
       js_mul (ToNumber (averageMonthlyRevenue_of (lookupIndustryConfig industry)))
         (js_mul (Math_max (Finite 0)
                    (js_sub (Finite (targetScore (PAGEYOU_PLANS plan))) (Finite currentScore)))
            (toDouble 0.005))"
    by (simp add: estimateROI_def calculateImprovementPotential_def Let_def)
  have "\<not> namesPrototypeMember industry \<longrightarrow>
        estimatedMonthlyReturn (estimateROI currentScore plan industry (Some 0)) =
          js_mul (Finite (averageMonthlyRevenue (resolveIndustryProfile industry)))
            (js_mul (Math_max (Finite 0)
                       (js_sub (Finite (targetScore (PAGEYOU_PLANS plan))) (Finite currentScore)))
               (toDouble 0.005))"
    by (simp add: return lookupIndustryConfig_resolves)
  with same return show ?thesis
    by simp
qed

theorem estimateROI_zero_revenue_is_absent_witness:
  "\<not> namesPrototypeMember None \<and>
   estimateROI 50 Standard None (Some 0) = estimateROI 50 Standard None None \<and>
   estimatedMonthlyReturn (estimateROI 50 Standard None (Some 0)) = Finite 312500"
proof -
  have computed: "js_mul (Finite (averageMonthlyRevenue (resolveIndustryProfile None)))
            (js_mul (Math_max (Finite 0)
                       (js_sub (Finite (targetScore (PAGEYOU_PLANS Standard))) (Finite 50)))
               (toDouble 0.005)) = Finite 312500"
    by (simp add: resolveIndustryProfile_def INDUSTRY_CONFIGS_default_def)
       (simp add: double_arith)
  from estimateROI_zero_revenue_is_absent [of 50 Standard None] not_namesPrototypeMember_None
  have "estimateROI 50 Standard None (Some 0) = estimateROI 50 Standard None None"
    "estimatedMonthlyReturn (estimateROI 50 Standard None (Some 0)) =
       js_mul (Finite (averageMonthlyRevenue (resolveIndustryProfile None)))
            (js_mul (Math_max (Finite 0)
                       (js_sub (Finite (targetScore (PAGEYOU_PLANS Standard))) (Finite 50)))
               (toDouble 0.005))"
    by blast+
  with computed not_namesPrototypeMember_None show ?thesis
    by simp
qed

section \<open>Deduplication\<close>

lemma map_of_Map_set: "map_of (Map_set k v es) = (map_of es)(k \<mapsto> v)"
  by (induction es) (auto simp add: fun_eq_iff)

lemma keys_Map_set: "fst ` set (Map_set k v es) = insert k (fst ` set es)"
  by (induction es) auto

lemma distinct_Map_set:
  "distinct (map fst es) \<Longrightarrow> distinct (map fst (Map_set k v es))"
  by (induction es) (auto simp add: keys_Map_set)

lemma winsKey_append_other:
  assumes "winsKey lc xs i" and "titleKey lc x \<noteq> titleKey lc (xs ! i)"
  shows "winsKey lc (xs @ [x]) i"
  using assms by (auto simp add: winsKey_def nth_append less_Suc_eq)

lemma winsKey_append_keep:
  assumes "winsKey lc xs i" and "priority x \<le> priority (xs ! i)"
  shows "winsKey lc (xs @ [x]) i"
  using assms by (auto simp add: winsKey_def nth_append less_Suc_eq)

lemma winsKey_append_new:
  assumes "\<forall>j<length xs. titleKey lc (xs ! j) = titleKey lc x \<longrightarrow> priority (xs ! j) < priority x"
  shows "winsKey lc (xs @ [x]) (length xs)"
  using assms by (auto simp add: winsKey_def nth_append less_Suc_eq)

lemma winsKey_bound:
  assumes "winsKey lc xs i" and "j < length xs"
    and "titleKey lc (xs ! j) = titleKey lc (xs ! i)"
  shows "priority (xs ! j) \<le> priority (xs ! i)"
proof -
  from assms have "if j < i then priority (xs ! j) < priority (xs ! i)
      else priority (xs ! j) \<le> priority (xs ! i)"
    by (simp add: winsKey_def)
  then show ?thesis
    by (simp split: if_splits)
qed

lemma seenInvariant_step:
  assumes inv: "seenInvariant lc xs seen"
  shows "seenInvariant lc (xs @ [x]) (seenStep lc seen x)"
proof -
  let ?k = "titleKey lc x"
  from inv have dist: "distinct (map fst seen)"
    and keys: "fst ` set seen = titleKey lc ` set xs"
    and best: "\<And>k v. map_of seen k = Some v \<Longrightarrow>
        titleKey lc v = k \<and> (\<exists>i. winsKey lc xs i \<and> xs ! i = v)"
    by (simp_all add: seenInvariant_def)
  show ?thesis
  proof (cases "map_of seen ?k")
    case None
    then have new: "?k \<notin> titleKey lc ` set xs"
      using keys by (simp add: map_of_eq_None_iff)
    have step: "seenStep lc seen x = Map_set ?k x seen"
      using None by (simp add: seenStep_def titleKey_def)
    have wins_x: "winsKey lc (xs @ [x]) (length xs)"
    proof (rule winsKey_append_new, intro allI impI)
      fix j assume "j < length xs" and "titleKey lc (xs ! j) = titleKey lc x"
      with new show "priority (xs ! j) < priority x"
        by (metis image_eqI nth_mem)
    qed
    have "\<exists>i. winsKey lc (xs @ [x]) i \<and> (xs @ [x]) ! i = v \<and> titleKey lc v = k"
      if "map_of (Map_set ?k x seen) k = Some v" for k v
    proof (cases "k = ?k")
      case True
      with that have "v = x"
        by (simp add: map_of_Map_set)
      with True wins_x show ?thesis
        by (intro exI [of _ "length xs"]) simp
    next
      case False
      with that have old: "map_of seen k = Some v"
        by (simp add: map_of_Map_set)
      from best [OF old] obtain i where i: "winsKey lc xs i" "xs ! i = v" "titleKey lc v = k"
        by blast
      with False have "winsKey lc (xs @ [x]) i"
        by (intro winsKey_append_other) auto
      moreover from i have "(xs @ [x]) ! i = v"
        by (simp add: winsKey_def nth_append)
      ultimately show ?thesis
        using i by blast
    qed
    then show ?thesis
      unfolding step seenInvariant_def
      using dist keys by (auto simp add: distinct_Map_set keys_Map_set)
  next
    case (Some e)
    from best [OF Some] obtain i where i: "winsKey lc xs i" "xs ! i = e" "titleKey lc e = ?k"
      by blast
    from Some have present: "?k \<in> fst ` set seen"
      by (meson domI domIff map_of_eq_None_iff)
    show ?thesis
    proof (cases "priority x > priority e")
      case True
      have step: "seenStep lc seen x = Map_set ?k x seen"
        using Some True by (simp add: seenStep_def titleKey_def)
      have wins_x: "winsKey lc (xs @ [x]) (length xs)"
      proof (rule winsKey_append_new, intro allI impI)
        fix j assume j: "j < length xs" "titleKey lc (xs ! j) = titleKey lc x"
        with i have "priority (xs ! j) \<le> priority (xs ! i)"
          by (intro winsKey_bound [of lc]) auto
        with True i show "priority (xs ! j) < priority x"
          by simp
      qed
      have "\<exists>i. winsKey lc (xs @ [x]) i \<and> (xs @ [x]) ! i = v \<and> titleKey lc v = k"
        if "map_of (Map_set ?k x seen) k = Some v" for k v
      proof (cases "k = ?k")
        case True
        with that have "v = x"
          by (simp add: map_of_Map_set)
        with True wins_x show ?thesis
          by (intro exI [of _ "length xs"]) simp
      next
        case False
        with that have old: "map_of seen k = Some v"
          by (simp add: map_of_Map_set)
        from best [OF old] obtain i' where i': "winsKey lc xs i'" "xs ! i' = v" "titleKey lc v = k"
          by blast
        with False have "winsKey lc (xs @ [x]) i'"
          by (intro winsKey_append_other) auto
        moreover from i' have "(xs @ [x]) ! i' = v"
          by (simp add: winsKey_def nth_append)
        ultimately show ?thesis
          using i' by blast
      qed
      then show ?thesis
        unfolding step seenInvariant_def
        using dist keys present by (auto simp add: distinct_Map_set keys_Map_set)
    next
      case False
      have step: "seenStep lc seen x = seen"
        using Some False by (simp add: seenStep_def titleKey_def)
      have "\<exists>i. winsKey lc (xs @ [x]) i \<and> (xs @ [x]) ! i = v \<and> titleKey lc v = k"
        if old: "map_of seen k = Some v" for k v
      proof -
        from best [OF old] obtain i' where i': "winsKey lc xs i'" "xs ! i' = v" "titleKey lc v = k"
          by blast
        have "winsKey lc (xs @ [x]) i'"
        proof (cases "k = ?k")
          case True
          with old Some have "v = e"
            by simp
          with False i' show ?thesis
            by (intro winsKey_append_keep) auto
        next
          case False
          with i' show ?thesis
            by (intro winsKey_append_other) auto
        qed
        moreover from i' have "(xs @ [x]) ! i' = v"
          by (simp add: winsKey_def nth_append)
        ultimately show ?thesis
          using i' by blast
      qed
      then show ?thesis
        unfolding step seenInvariant_def
        using dist keys present by auto
    qed
  qed
qed

lemma seenInvariant_foldl: "seenInvariant lc xs (foldl (seenStep lc) [] xs)"
proof (induction xs rule: rev_induct)
  case Nil
  show ?case by (simp add: seenInvariant_def)
next
  case (snoc x xs)
  then show ?case by (simp add: seenInvariant_step)
qed

lemma deduplicateOpportunities_pair:
  assumes "titleKey lc a = titleKey lc b"
  shows "deduplicateOpportunities lc [a, b] = [if priority b > priority a then b else a]"
  using assms by (simp add: deduplicateOpportunities_def seenStep_def titleKey_def)

text \<open>
  C3. \<open>deduplicateOpportunities\<close>, the deduplication step of \<open>calculate\<close>, keeps
  exactly one entry per case-folded title of the merged list: the keys of the result are
  distinct and are the keys of the input. The entry kept for a key is the one with the
  strictly highest priority, and among equal priorities the first in merge order. Two
  opportunities with the same case-folded title and priorities 6 and 9 give the single
  entry with priority 9, in either order.
\<close>

theorem deduplicateOpportunities_keeps_best:
  "distinct (map (titleKey lc) (deduplicateOpportunities lc opps)) \<and>
   set (map (titleKey lc) (deduplicateOpportunities lc opps)) = set (map (titleKey lc) opps) \<and>
   (\<forall>kept \<in> set (deduplicateOpportunities lc opps). \<exists>i. winsKey lc opps i \<and> opps ! i = kept) \<and>
   (titleKey lc a = titleKey lc b \<and> priority a = 6 \<and> priority b = 9 \<longrightarrow>
      deduplicateOpportunities lc [a, b] = [b] \<and> deduplicateOpportunities lc [b, a] = [b])"
proof -
  let ?seen = "foldl (seenStep lc) [] opps"
  have inv: "seenInvariant lc opps ?seen"
    by (rule seenInvariant_foldl)
  then have dist: "distinct (map fst ?seen)"
    and keys: "fst ` set ?seen = titleKey lc ` set opps"
    and best: "\<And>k v. map_of ?seen k = Some v \<Longrightarrow>
        titleKey lc v = k \<and> (\<exists>i. winsKey lc opps i \<and> opps ! i = v)"
    by (simp_all add: seenInvariant_def)
  have entry: "titleKey lc v = k \<and> (\<exists>i. winsKey lc opps i \<and> opps ! i = v)"
    if "(k, v) \<in> set ?seen" for k v
    using that dist best by simp
  have same: "map (titleKey lc) (map snd ?seen) = map fst ?seen"
    using entry by (auto simp add: list_eq_iff_nth_eq)
  have "distinct (map (titleKey lc) (deduplicateOpportunities lc opps))"
    using dist same by (simp add: deduplicateOpportunities_def del: map_map)
  moreover have "set (map (titleKey lc) (deduplicateOpportunities lc opps)) =
      set (map (titleKey lc) opps)"
    using keys same by (simp add: deduplicateOpportunities_def del: map_map)
  moreover have "\<forall>kept \<in> set (deduplicateOpportunities lc opps).
      \<exists>i. winsKey lc opps i \<and> opps ! i = kept"
    using entry by (auto simp add: deduplicateOpportunities_def)
  moreover have "titleKey lc a = titleKey lc b \<and> priority a = 6 \<and> priority b = 9 \<longrightarrow>
      deduplicateOpportunities lc [a, b] = [b] \<and> deduplicateOpportunities lc [b, a] = [b]"
    by (simp add: deduplicateOpportunities_pair)
  ultimately show ?thesis
    by blast
qed

theorem deduplicateOpportunities_keeps_best_witness:
  "deduplicateOpportunities toLowerCase_ascii
     [sample ''Fix Images'' 6 100, sample ''Add CTA'' 5 200, sample ''fix images'' 9 300,
      sample ''FIX IMAGES'' 9 400]
   = [sample ''fix images'' 9 300, sample ''Add CTA'' 5 200]
   \<and> winsKey toLowerCase_ascii
     [sample ''Fix Images'' 6 100, sample ''Add CTA'' 5 200, sample ''fix images'' 9 300,
      sample ''FIX IMAGES'' 9 400] 2
   \<and> titleKey toLowerCase_ascii (sample ''Fix Images'' 6 100) =
       titleKey toLowerCase_ascii (sample ''fix images'' 9 300)
   \<and> deduplicateOpportunities toLowerCase_ascii
        [sample ''Fix Images'' 6 100, sample ''fix images'' 9 300] = [sample ''fix images'' 9 300]"
proof -
  let ?a = "sample ''Fix Images'' 6 100" and ?b = "sample ''fix images'' 9 300"
  let ?xs = "[?a, sample ''Add CTA'' 5 200, ?b, sample ''FIX IMAGES'' 9 400]"
  have key: "titleKey toLowerCase_ascii ?a = titleKey toLowerCase_ascii ?b"
    by (simp add: titleKey_def toLowerCase_ascii_def sample_def ascii_def)
  have run: "deduplicateOpportunities toLowerCase_ascii ?xs = [?b, sample ''Add CTA'' 5 200]"
    by (simp add: deduplicateOpportunities_def seenStep_def toLowerCase_ascii_def sample_def
        ascii_def Let_def)
  have pa: "priority ?a = 6" and pb: "priority ?b = 9"
    by (simp_all add: sample_def)
  note inst = deduplicateOpportunities_keeps_best [of toLowerCase_ascii ?xs ?a ?b]
  from inst have "\<forall>kept \<in> set (deduplicateOpportunities toLowerCase_ascii ?xs).
      \<exists>i. winsKey toLowerCase_ascii ?xs i \<and> ?xs ! i = kept"
    by blast
  with run obtain i where i: "winsKey toLowerCase_ascii ?xs i" "?xs ! i = ?b"
    by auto
  have "i = 2"
  proof -
    from i have "i < 4"
      by (simp add: winsKey_def)
    then consider "i = 0" | "i = 1" | "i = 2" | "i = 3"
      by linarith
    then show ?thesis
    proof cases
      case 1 with i(2) show ?thesis by (simp add: sample_def ascii_def)
    next
      case 2 with i(2) show ?thesis by (simp add: sample_def ascii_def)
    next
      case 3 then show ?thesis .
    next
      case 4 with i(2) show ?thesis by (simp add: sample_def ascii_def)
    qed
  qed
  with i have wins: "winsKey toLowerCase_ascii ?xs 2"
    by simp
  from inst key pa pb have "deduplicateOpportunities toLowerCase_ascii [?a, ?b] = [?b]"
    by blast
  with run wins key show ?thesis
    by simp
qed


section \<open>Ranking\<close>

lemma length_insertSorted: "length (insertSorted cmp x ys) = Suc (length ys)"
  by (induction ys) simp_all

lemma length_Array_sort: "length (Array_sort cmp xs) = length xs"
  by (induction xs) (simp_all add: Array_sort_def length_insertSorted)

lemma length_calculate: "length (calculate toLowerCase data industry) \<le> 10"
  by (simp add: calculate_def Let_def)

lemma generateSyntheticOpportunities_spec:
  "generateSyntheticOpportunities data industryConfig =
     syntheticOpportunities_spec (scores data) (averageMonthlyRevenue_of industryConfig)"
  by (simp add: generateSyntheticOpportunities_def syntheticOpportunities_spec_def Let_def)

text \<open>Steps of \<open>calculate\<close> on the examples.\<close>

lemma adjustRevenueByIndustry_examples:
  "adjustRevenueByIndustry 100 (Some 2500000) = Finite 100"
  "adjustRevenueByIndustry 300 (Some 2500000) = Finite 300"
  "adjustRevenueByIndustry x None = NaN"
  by (simp_all add: adjustRevenueByIndustry_def double_arith)

lemma withAdjustedRevenue_sample:
  "withAdjustedRevenue average (sample t p lift) =
     \<lparr>title = ascii t, description = [], estimatedImprovement = 10,
      estimatedRevenueLift = adjustRevenueByIndustry lift average, effort = EffortLow,
      priority = p\<rparr>"
  by (simp add: withAdjustedRevenue_def sample_def)

lemma no_synthetic_at_90:
  "syntheticOpportunities_spec
     \<lparr>performance = Finite 90, mobile = Finite 90, seo = Finite 90, conversion = Finite 90,
      content = Finite 90, total = Finite 90\<rparr> average = []"
  by (simp add: syntheticOpportunities_spec_def)

lemma priorityBoost_plain:
  "priorityBoost
     \<lparr>title = ascii [c], description = [], estimatedImprovement = 10,
      estimatedRevenueLift = lift, effort = EffortLow, priority = p\<rparr>
     \<lparr>performance = Finite 90, mobile = Finite 90, seo = Finite 90, conversion = Finite 90,
      content = Finite 90, total = Finite 90\<rparr> =
   (if js_gt lift (Finite 50000) then Finite 2 else Finite 0)"
  by (simp add: priorityBoost_def ascii_def Let_def) (simp add: double_arith)

lemma withBoostedPriority_plain:
  "withBoostedPriority
     \<lparr>performance = Finite 90, mobile = Finite 90, seo = Finite 90, conversion = Finite 90,
      content = Finite 90, total = Finite 90\<rparr>
     \<lparr>title = ascii [c], description = [], estimatedImprovement = 10,
      estimatedRevenueLift = lift, effort = EffortLow, priority = 5\<rparr> =
   ranked [c] (if js_gt lift (Finite 50000) then Finite 7 else Finite 5) lift"
  by (simp add: withBoostedPriority_def priorityBoost_plain ranked_def del: priorityBoost_def)
     (simp add: double_arith)

lemma calculate_at_90:
  "calculate toLowerCase_ascii
     \<lparr>scores = \<lparr>performance = Finite 90, mobile = Finite 90, seo = Finite 90,
                 conversion = Finite 90, content = Finite 90, total = Finite 90\<rparr>,
      performanceResult = opps, seoResult = [], mobileResult = [],
      conversionResult = [], contentResult = []\<rparr> industry =
   take 10 (Array_sort compareOpportunities
     (map (withBoostedPriority
             \<lparr>performance = Finite 90, mobile = Finite 90, seo = Finite 90,
              conversion = Finite 90, content = Finite 90, total = Finite 90\<rparr>)
        (deduplicateOpportunities toLowerCase_ascii
           (map (withAdjustedRevenue (averageMonthlyRevenue_of (lookupIndustryConfig industry)))
              opps))))"
  by (simp add: calculate_def generateSyntheticOpportunities_spec no_synthetic_at_90
      recalculatePriorities_def Let_def)

lemma calculate_pair_constructor:
  "calculate toLowerCase_ascii
     \<lparr>scores = \<lparr>performance = Finite 90, mobile = Finite 90, seo = Finite 90,
                 conversion = Finite 90, content = Finite 90, total = Finite 90\<rparr>,
      performanceResult = [sample ''A'' 5 100, sample ''B'' 5 300], seoResult = [],
      mobileResult = [], conversionResult = [], contentResult = []\<rparr>
     (Some (ascii ''constructor''))
   = [ranked ''A'' (Finite 5) NaN, ranked ''B'' (Finite 5) NaN]"
proof -
  have unique: "deduplicateOpportunities toLowerCase_ascii
      [\<lparr>title = ascii ''A'', description = [], estimatedImprovement = 10,
        estimatedRevenueLift = NaN, effort = EffortLow, priority = 5\<rparr>,
       \<lparr>title = ascii ''B'', description = [], estimatedImprovement = 10,
        estimatedRevenueLift = NaN, effort = EffortLow, priority = 5\<rparr>] =
      [\<lparr>title = ascii ''A'', description = [], estimatedImprovement = 10,
        estimatedRevenueLift = NaN, effort = EffortLow, priority = 5\<rparr>,
       \<lparr>title = ascii ''B'', description = [], estimatedImprovement = 10,
        estimatedRevenueLift = NaN, effort = EffortLow, priority = 5\<rparr>]"
    by (simp add: deduplicateOpportunities_def seenStep_def toLowerCase_ascii_def ascii_def
        Let_def)
  have sorted: "Array_sort compareOpportunities
      [ranked ''A'' (Finite 5) NaN, ranked ''B'' (Finite 5) NaN] =
      [ranked ''A'' (Finite 5) NaN, ranked ''B'' (Finite 5) NaN]"
    by (simp add: Array_sort_def compareOpportunities_def ranked_def double_arith)
  show ?thesis
    by (simp add: calculate_at_90 lookupIndustryConfig_constructor withAdjustedRevenue_sample
        adjustRevenueByIndustry_examples unique withBoostedPriority_plain sorted js_gt_def)
qed

lemma calculate_pair_default:
  "calculate toLowerCase_ascii
     \<lparr>scores = \<lparr>performance = Finite 90, mobile = Finite 90, seo = Finite 90,
                 conversion = Finite 90, content = Finite 90, total = Finite 90\<rparr>,
      performanceResult = [sample ''A'' 5 100, sample ''B'' 5 300], seoResult = [],
      mobileResult = [], conversionResult = [], contentResult = []\<rparr>
     (Some (ascii ''default''))
   = [ranked ''B'' (Finite 5) (Finite 300), ranked ''A'' (Finite 5) (Finite 100)]"
proof -
  have unique: "deduplicateOpportunities toLowerCase_ascii
      [\<lparr>title = ascii ''A'', description = [], estimatedImprovement = 10,
        estimatedRevenueLift = Finite 100, effort = EffortLow, priority = 5\<rparr>,
       \<lparr>title = ascii ''B'', description = [], estimatedImprovement = 10,
        estimatedRevenueLift = Finite 300, effort = EffortLow, priority = 5\<rparr>] =
      [\<lparr>title = ascii ''A'', description = [], estimatedImprovement = 10,
        estimatedRevenueLift = Finite 100, effort = EffortLow, priority = 5\<rparr>,
       \<lparr>title = ascii ''B'', description = [], estimatedImprovement = 10,
        estimatedRevenueLift = Finite 300, effort = EffortLow, priority = 5\<rparr>]"
    by (simp add: deduplicateOpportunities_def seenStep_def toLowerCase_ascii_def ascii_def
        Let_def)
  have sorted: "Array_sort compareOpportunities
      [ranked ''A'' (Finite 5) (Finite 100), ranked ''B'' (Finite 5) (Finite 300)] =
      [ranked ''B'' (Finite 5) (Finite 300), ranked ''A'' (Finite 5) (Finite 100)]"
    by (simp add: Array_sort_def compareOpportunities_def ranked_def double_arith)
  show ?thesis
    by (simp add: calculate_at_90 lookupIndustryConfig_default INDUSTRY_CONFIGS_default_values
        withAdjustedRevenue_sample adjustRevenueByIndustry_examples unique
        withBoostedPriority_plain sorted js_gt_def)
qed

text \<open>
  C4 (the code departs from the claim). The returned list never has more than 10
  entries. It is not always in the claimed order: for an industry identifier that names a
  member of \<open>Object.prototype\<close>, such as \<open>constructor\<close>, the industry does not
  resolve to the default profile (the defect recorded under C9), every revenue lift is
  NaN and the comparator cannot tell entries of equal priority apart. Two opportunities of
  priority 5 with lifts 100 and 300 come back in the order handed over, with lifts NaN,
  where the identifier \<open>default\<close> puts the lift 300 first.
\<close>

theorem calculate_order_lost:
  "length (calculate toLowerCase data industry) \<le> 10
   \<and> calculate toLowerCase_ascii
       \<lparr>scores = \<lparr>performance = Finite 90, mobile = Finite 90, seo = Finite 90,
                   conversion = Finite 90, content = Finite 90, total = Finite 90\<rparr>,
        performanceResult = [sample ''A'' 5 100, sample ''B'' 5 300], seoResult = [],
        mobileResult = [], conversionResult = [], contentResult = []\<rparr>
       (Some (ascii ''constructor''))
     = [ranked ''A'' (Finite 5) NaN, ranked ''B'' (Finite 5) NaN]
   \<and> \<not> sorted_wrt rankedBefore
       (calculate toLowerCase_ascii
          \<lparr>scores = \<lparr>performance = Finite 90, mobile = Finite 90, seo = Finite 90,
                      conversion = Finite 90, content = Finite 90, total = Finite 90\<rparr>,
           performanceResult = [sample ''A'' 5 100, sample ''B'' 5 300], seoResult = [],
           mobileResult = [], conversionResult = [], contentResult = []\<rparr>
          (Some (ascii ''constructor'')))
   \<and> calculate toLowerCase_ascii
       \<lparr>scores = \<lparr>performance = Finite 90, mobile = Finite 90, seo = Finite 90,
                   conversion = Finite 90, content = Finite 90, total = Finite 90\<rparr>,
        performanceResult = [sample ''A'' 5 100, sample ''B'' 5 300], seoResult = [],
        mobileResult = [], conversionResult = [], contentResult = []\<rparr>
       (Some (ascii ''default''))
     = [ranked ''B'' (Finite 5) (Finite 300), ranked ''A'' (Finite 5) (Finite 100)]
   \<and> sorted_wrt rankedBefore
       (calculate toLowerCase_ascii
          \<lparr>scores = \<lparr>performance = Finite 90, mobile = Finite 90, seo = Finite 90,
                      conversion = Finite 90, content = Finite 90, total = Finite 90\<rparr>,
           performanceResult = [sample ''A'' 5 100, sample ''B'' 5 300], seoResult = [],
           mobileResult = [], conversionResult = [], contentResult = []\<rparr>
          (Some (ascii ''default'')))"
proof -
  have "\<not> sorted_wrt rankedBefore [ranked ''A'' (Finite 5) NaN, ranked ''B'' (Finite 5) NaN]"
    by (simp add: rankedBefore_def ranked_def)
  moreover have "sorted_wrt rankedBefore
      [ranked ''B'' (Finite 5) (Finite 300), ranked ''A'' (Finite 5) (Finite 100)]"
    by (simp add: rankedBefore_def ranked_def)
  ultimately show ?thesis
    by (simp only: calculate_pair_constructor calculate_pair_default length_calculate
        simp_thms)
qed

section \<open>Unknown industry identifiers\<close>

lemma calculate_single_constructor:
  "calculate toLowerCase_ascii
     \<lparr>scores = \<lparr>performance = Finite 90, mobile = Finite 90, seo = Finite 90,
                 conversion = Finite 90, content = Finite 90, total = Finite 90\<rparr>,
      performanceResult = [sample ''A'' 5 100], seoResult = [],
      mobileResult = [], conversionResult = [], contentResult = []\<rparr>
     (Some (ascii ''constructor''))
   = [ranked ''A'' (Finite 5) NaN]"
  by (simp add: calculate_at_90 lookupIndustryConfig_constructor withAdjustedRevenue_sample
      adjustRevenueByIndustry_examples deduplicateOpportunities_def seenStep_def Let_def
      withBoostedPriority_plain Array_sort_def js_gt_def)

lemma calculate_single_default:
  "calculate toLowerCase_ascii
     \<lparr>scores = \<lparr>performance = Finite 90, mobile = Finite 90, seo = Finite 90,
                 conversion = Finite 90, content = Finite 90, total = Finite 90\<rparr>,
      performanceResult = [sample ''A'' 5 100], seoResult = [],
      mobileResult = [], conversionResult = [], contentResult = []\<rparr>
     (Some (ascii ''default''))
   = [ranked ''A'' (Finite 5) (Finite 100)]"
  by (simp add: calculate_at_90 lookupIndustryConfig_default INDUSTRY_CONFIGS_default_values
      withAdjustedRevenue_sample
      adjustRevenueByIndustry_examples deduplicateOpportunities_def seenStep_def Let_def
      withBoostedPriority_plain Array_sort_def js_gt_def)

text \<open>
  C9 (the code departs from the claim). An industry identifier that is not a key of the
  registry is meant to resolve to the default profile. For the identifier
  \<open>constructor\<close> the property read finds \<open>Object.prototype.constructor\<close>, the
  fallback is not taken, and \<open>calculateScores\<close> throws a TypeError when it reads
  \<open>weightMultipliers.performance\<close> of that value, where the identifier \<open>default\<close>
  gives the scores; in \<open>calculate\<close> the revenue lift of an adjusted opportunity is NaN,
  where the identifier \<open>default\<close> leaves it at 100.
\<close>

theorem inherited_name_not_default:
  "calculateScores
     \<lparr>performance = 20, mobile = 80, seo = 80, conversion = 80, content = 80,
      isHttps = True\<rparr> (Some (ascii ''constructor'')) = Inl TypeError
   \<and> calculateScores
     \<lparr>performance = 20, mobile = 80, seo = 80, conversion = 80, content = 80,
      isHttps = True\<rparr> (Some (ascii ''default''))
     = Inr \<lparr>performance = Finite 20, mobile = Finite 80, seo = Finite 80,
            conversion = Finite 80, content = Finite 80, total = Finite 65\<rparr>
   \<and> calculate toLowerCase_ascii
     \<lparr>scores = \<lparr>performance = Finite 90, mobile = Finite 90, seo = Finite 90,
                 conversion = Finite 90, content = Finite 90, total = Finite 90\<rparr>,
      performanceResult = [sample ''A'' 5 100], seoResult = [], mobileResult = [],
      conversionResult = [], contentResult = []\<rparr> (Some (ascii ''constructor''))
     = [ranked ''A'' (Finite 5) NaN]
   \<and> calculate toLowerCase_ascii
     \<lparr>scores = \<lparr>performance = Finite 90, mobile = Finite 90, seo = Finite 90,
                 conversion = Finite 90, content = Finite 90, total = Finite 90\<rparr>,
      performanceResult = [sample ''A'' 5 100], seoResult = [], mobileResult = [],
      conversionResult = [], contentResult = []\<rparr> (Some (ascii ''default''))
     = [ranked ''A'' (Finite 5) (Finite 100)]"
proof -
  have "calculateScores
     \<lparr>performance = 20, mobile = 80, seo = 80, conversion = 80, content = 80,
      isHttps = True\<rparr> (Some (ascii ''constructor'')) = Inl TypeError"
    by (simp add: calculateScores_def lookupIndustryConfig_constructor)
  then show ?thesis
    by (simp only: calculateScores_default calculate_single_constructor
        calculate_single_default simp_thms)
qed

lemma lookupIndustryConfig_unknown:
  assumes "\<not> namesPrototypeMember industry" and "\<not> ownKey industry"
  shows "lookupIndustryConfig industry = lookupIndustryConfig (Some (ascii ''default''))"
proof -
  have "resolveIndustryProfile industry = INDUSTRY_CONFIGS_default"
  proof (cases industry)
    case None
    then show ?thesis by (simp add: resolveIndustryProfile_def)
  next
    case (Some name)
    with assms(2) have "map_of INDUSTRY_CONFIGS name = None"
      by (simp add: ownKey_def map_of_eq_None_iff)
    with Some show ?thesis by (simp add: resolveIndustryProfile_def)
  qed
  with assms(1) show ?thesis
    by (simp add: lookupIndustryConfig_resolves lookupIndustryConfig_default)
qed

text \<open>
  An industry argument that is absent, or is neither a key of the registry nor the name of
  a member of \<open>Object.prototype\<close>, gives the results of the identifier \<open>default\<close>.
\<close>

theorem unknown_industry_is_default:
  "\<not> namesPrototypeMember industry \<and> \<not> ownKey industry \<longrightarrow>
     calculateScores results industry = calculateScores results (Some (ascii ''default'')) \<and>
     calculate toLowerCase data industry = calculate toLowerCase data (Some (ascii ''default'')) \<and>
     estimateROI currentScore plan industry revenue =
       estimateROI currentScore plan (Some (ascii ''default'')) revenue"
  by (simp add: calculateScores_def calculate_def estimateROI_def lookupIndustryConfig_unknown)

theorem unknown_industry_is_default_witness:
  "\<not> namesPrototypeMember (Some (ascii ''bakery'')) \<and> \<not> ownKey (Some (ascii ''bakery'')) \<and>
   calculateScores
     \<lparr>performance = 20, mobile = 80, seo = 80, conversion = 80, content = 80,
      isHttps = True\<rparr> (Some (ascii ''bakery''))
   = calculateScores
     \<lparr>performance = 20, mobile = 80, seo = 80, conversion = 80, content = 80,
      isHttps = True\<rparr> (Some (ascii ''default''))"
proof -
  have "\<not> namesPrototypeMember (Some (ascii ''bakery''))"
    by (simp add: namesPrototypeMember_def Object_prototype_properties_def ascii_def)
  moreover have "\<not> ownKey (Some (ascii ''bakery''))"
    by (simp add: ownKey_def INDUSTRY_CONFIGS_keys) (simp add: ascii_def)
  ultimately show ?thesis
    using unknown_industry_is_default [of "Some (ascii ''bakery'')"]
    by blast
qed

section \<open>Synthetic opportunities\<close>

lemma synthetic_lifts:
  "js_mul (Finite 2500000) (toDouble 0.1) = Finite 250000"
  by (simp add: double_arith)

lemma lookupIndustryConfig_None: "lookupIndustryConfig None = Config INDUSTRY_CONFIGS_default"
  by (simp add: lookupIndustryConfig_def)

lemma calculate_pipeline:
  "calculate toLowerCase data industry =
     take 10
       (recalculatePriorities
          (deduplicateOpportunities toLowerCase
             (map (withAdjustedRevenue (averageMonthlyRevenue_of (lookupIndustryConfig industry)))
                (performanceResult data @ seoResult data @ mobileResult data @
                 conversionResult data @ contentResult data) @
              syntheticOpportunities_spec (scores data)
                (averageMonthlyRevenue_of (lookupIndustryConfig industry))))
          (scores data))"
  by (simp add: calculate_def generateSyntheticOpportunities_spec Let_def)

lemma renewal_only_at_25:
  "syntheticOpportunities_spec
     \<lparr>performance = Finite 90, mobile = Finite 90, seo = Finite 90, conversion = Finite 90,
      content = Finite 90, total = Finite 25\<rparr> average = [renewalOpportunity average]"
  by (simp add: syntheticOpportunities_spec_def)

lemma withBoostedPriority_renewal:
  "withBoostedPriority
     \<lparr>performance = Finite 90, mobile = Finite 90, seo = Finite 90, conversion = Finite 90,
      content = Finite 90, total = Finite 25\<rparr> (renewalOpportunity (Some 2500000)) =
   rankedRenewal (Finite 250000) (Finite 10)"
  "withBoostedPriority
     \<lparr>performance = Finite 90, mobile = Finite 90, seo = Finite 90, conversion = Finite 90,
      content = Finite 90, total = Finite 25\<rparr> (renewalOpportunity None) =
   rankedRenewal NaN (Finite 10)"
  by (simp_all add: withBoostedPriority_def priorityBoost_def renewalOpportunity_def
      rankedRenewal_def synthetic_lifts Let_def js_gt_def)
     (simp_all add: double_arith)

lemma calculate_renewal:
  "calculate toLowerCase_ascii
     \<lparr>scores = \<lparr>performance = Finite 90, mobile = Finite 90, seo = Finite 90,
                 conversion = Finite 90, content = Finite 90, total = Finite 25\<rparr>,
      performanceResult = [], seoResult = [], mobileResult = [], conversionResult = [],
      contentResult = []\<rparr> None
   = [rankedRenewal (Finite 250000) (Finite 10)]"
  "calculate toLowerCase_ascii
     \<lparr>scores = \<lparr>performance = Finite 90, mobile = Finite 90, seo = Finite 90,
                 conversion = Finite 90, content = Finite 90, total = Finite 25\<rparr>,
      performanceResult = [], seoResult = [], mobileResult = [], conversionResult = [],
      contentResult = []\<rparr> (Some (ascii ''constructor''))
   = [rankedRenewal NaN (Finite 10)]"
  by (simp_all add: calculate_pipeline renewal_only_at_25 lookupIndustryConfig_constructor
      lookupIndustryConfig_None INDUSTRY_CONFIGS_default_values
      deduplicateOpportunities_def seenStep_def Let_def recalculatePriorities_def
      withBoostedPriority_renewal Array_sort_def)

lemma all_rules_fire:
  "map estimatedRevenueLift
     (syntheticOpportunities_spec
        \<lparr>performance = Finite 20, mobile = Finite 20, seo = Finite 20, conversion = Finite 20,
         content = Finite 20, total = Finite 20\<rparr> (Some 2500000))
   = [Finite 250000, Finite 200000, Finite 150000, Finite 300000]"
  by (simp add: syntheticOpportunities_spec_def renewalOpportunity_def
      mobileFirstOpportunity_def contentMarketingOpportunity_def conversionOpportunity_def)
     (simp add: double_arith)

text \<open>
  C5 (the code departs from the claim). The synthetic opportunities are those of four
  independent threshold rules, and \<open>calculate\<close> ranks them with the analyzers'
  opportunities; with a total of 25 and the default industry the ranked list is the
  full-site-renewal opportunity (improvement 60, effort High, base priority 10) with a
  revenue lift of 250000, and with every score at 20 all four rules fire. For an industry
  identifier that names a member of \<open>Object.prototype\<close>, such as \<open>constructor\<close>, the
  industry does not resolve to the default profile (the defect recorded under C9) and the
  revenue lift of the renewal opportunity is NaN, not 250000.
\<close>

theorem renewal_lift_NaN:
  "generateSyntheticOpportunities data industryConfig =
     syntheticOpportunities_spec (scores data) (averageMonthlyRevenue_of industryConfig)
   \<and> calculate toLowerCase data industry =
       take 10
         (recalculatePriorities
            (deduplicateOpportunities toLowerCase
               (map (withAdjustedRevenue (averageMonthlyRevenue_of (lookupIndustryConfig industry)))
                  (performanceResult data @ seoResult data @ mobileResult data @
                   conversionResult data @ contentResult data) @
                syntheticOpportunities_spec (scores data)
                  (averageMonthlyRevenue_of (lookupIndustryConfig industry))))
            (scores data))
   \<and> priority (renewalOpportunity average) = 10
   \<and> calculate toLowerCase_ascii
       \<lparr>scores = \<lparr>performance = Finite 90, mobile = Finite 90, seo = Finite 90,
                   conversion = Finite 90, content = Finite 90, total = Finite 25\<rparr>,
        performanceResult = [], seoResult = [], mobileResult = [], conversionResult = [],
        contentResult = []\<rparr> (Some (ascii ''constructor''))
     = [rankedRenewal NaN (Finite 10)]
   \<and> calculate toLowerCase_ascii
       \<lparr>scores = \<lparr>performance = Finite 90, mobile = Finite 90, seo = Finite 90,
                   conversion = Finite 90, content = Finite 90, total = Finite 25\<rparr>,
        performanceResult = [], seoResult = [], mobileResult = [], conversionResult = [],
        contentResult = []\<rparr> None
     = [rankedRenewal (Finite 250000) (Finite 10)]
   \<and> map estimatedRevenueLift
       (syntheticOpportunities_spec
          \<lparr>performance = Finite 20, mobile = Finite 20, seo = Finite 20,
           conversion = Finite 20, content = Finite 20, total = Finite 20\<rparr> (Some 2500000))
     = [Finite 250000, Finite 200000, Finite 150000, Finite 300000]"
proof -
  have "priority (renewalOpportunity average) = 10"
    by (simp add: renewalOpportunity_def)
  moreover note generateSyntheticOpportunities_spec [of data industryConfig]
    calculate_pipeline [of toLowerCase data industry]
  ultimately show ?thesis
    by (simp only: calculate_renewal all_rules_fire simp_thms)
qed

end
